theory Spec2Isabelle
  imports Main
begin

section \<open>JavaScript values used by the front end\<close>

text \<open>
  The front end of the Home Value Estimator is the script
  \<^verbatim>\<open>src/code/frontend/script (1).js\<close>: page navigation, the sample listings, the search
  form of the demo page and the chat widget. Each function of the script that the
  properties below are about is a definition of the same name here; the state it changes
  (the document, the global variables, what was sent to the server) is passed in and
  returned.

  A JavaScript string is a sequence of UTF-16 code units; it is modelled as the list of
  its code units, each a natural number (below 65536 in every string the browser can
  build). \<open>js\<close> turns an ASCII literal of the source into that representation. The
  numbers that the script handles (prices, parsed form fields) are integers; they are
  modelled as unbounded \<open>int\<close>, which agrees with the double arithmetic of the browser
  for magnitudes below \<open>2 ^ 53\<close>.
\<close>

type_synonym jsstring = "nat list"

definition js :: "string \<Rightarrow> jsstring" where
  "js = map of_char"

text \<open>
  White space as \<^verbatim>\<open>String.prototype.trim\<close> and \<^verbatim>\<open>parseInt\<close> understand it: the
  WhiteSpace and LineTerminator code points of ECMAScript.
\<close>

definition isWhiteSpace :: "nat \<Rightarrow> bool" where
  "isWhiteSpace c =
     (c = 0x9 \<or> c = 0xA \<or> c = 0xB \<or> c = 0xC \<or> c = 0xD \<or> c = 0x20 \<or> c = 0xA0
      \<or> c = 0x1680 \<or> (0x2000 \<le> c \<and> c \<le> 0x200A) \<or> c = 0x2028 \<or> c = 0x2029
      \<or> c = 0x202F \<or> c = 0x205F \<or> c = 0x3000 \<or> c = 0xFEFF)"

definition trimStart :: "jsstring \<Rightarrow> jsstring" where
  "trimStart s = dropWhile isWhiteSpace s"

definition trim :: "jsstring \<Rightarrow> jsstring" where
  "trim s = rev (dropWhile isWhiteSpace (rev (dropWhile isWhiteSpace s)))"

text \<open>
  \<^verbatim>\<open>parseInt(string)\<close> with no radix: leading white space is skipped, a sign is read, a
  \<^verbatim>\<open>0x\<close> or \<^verbatim>\<open>0X\<close> prefix selects radix 16, and the longest run of digits of the radix
  is the value; with no digit the result is \<^verbatim>\<open>NaN\<close>, here \<open>None\<close>. The argument
  \<^verbatim>\<open>undefined\<close> (the value of \<^verbatim>\<open>el?.value\<close> for a missing element) is converted to
  the string \<^verbatim>\<open>"undefined"\<close>, which has no digit; it is the argument \<open>None\<close>.
\<close>

definition digitValue :: "nat \<Rightarrow> nat \<Rightarrow> nat option" where
  "digitValue radix c =
     (let v = (if 0x30 \<le> c \<and> c \<le> 0x39 then Some (c - 0x30)
               else if 0x61 \<le> c \<and> c \<le> 0x7A then Some (c - 0x61 + 10)
               else if 0x41 \<le> c \<and> c \<le> 0x5A then Some (c - 0x41 + 10)
               else None)
      in case v of None \<Rightarrow> None | Some n \<Rightarrow> if n < radix then Some n else None)"

definition isDigitOf :: "nat \<Rightarrow> nat \<Rightarrow> bool" where
  "isDigitOf radix c = (digitValue radix c \<noteq> None)"

definition digitsValue :: "nat \<Rightarrow> jsstring \<Rightarrow> int" where
  "digitsValue radix ds = foldl (\<lambda>acc c. acc * int radix + int (the (digitValue radix c))) 0 ds"

definition parseDigits :: "nat \<Rightarrow> jsstring \<Rightarrow> int option" where
  "parseDigits radix s =
     (let z = takeWhile (isDigitOf radix) s
      in if z = [] then None else Some (digitsValue radix z))"

definition parseUnsigned :: "jsstring \<Rightarrow> int option" where
  "parseUnsigned s =
     (if take 2 s = js ''0x'' \<or> take 2 s = js ''0X'' then parseDigits 16 (drop 2 s)
      else parseDigits 10 s)"

definition parseInt :: "jsstring option \<Rightarrow> int option" where
  "parseInt v =
     (case v of
        None \<Rightarrow> None
      | Some str \<Rightarrow>
          (let s = trimStart str
           in if take 1 s = js ''-'' then map_option uminus (parseUnsigned (drop 1 s))
              else if take 1 s = js ''+'' then parseUnsigned (drop 1 s)
              else parseUnsigned s))"

text \<open>\<^verbatim>\<open>parseInt(...) || 0\<close>: \<^verbatim>\<open>NaN\<close> and \<^verbatim>\<open>0\<close> are both falsy.\<close>

definition orZero :: "int option \<Rightarrow> int" where
  "orZero n = (case n of None \<Rightarrow> 0 | Some k \<Rightarrow> if k = 0 then 0 else k)"

text \<open>\<^verbatim>\<open>n || null\<close> on a number: \<^verbatim>\<open>0\<close> is falsy and becomes \<^verbatim>\<open>null\<close>, here \<open>None\<close>.\<close>

definition orNull :: "int \<Rightarrow> int option" where
  "orNull n = (if n = 0 then None else Some n)"

section \<open>The document\<close>

text \<open>
  The sample listings of the script, \<^verbatim>\<open>PROPERTIES\<close>. The fields \<^verbatim>\<open>id\<close>, \<^verbatim>\<open>type\<close> and
  \<^verbatim>\<open>zip\<close> are \<open>propId\<close>, \<open>propType\<close> and \<open>zipCode\<close> here.
\<close>

record property =
  propId :: jsstring
  address1 :: jsstring
  city :: jsstring
  state :: jsstring
  zipCode :: jsstring
  beds :: int
  baths :: int
  sqft :: int
  lotSqft :: int
  yearBuilt :: int
  hasGarage :: bool
  propType :: jsstring
  listPrice :: int
  estValue :: int
  photo :: jsstring
  photos :: "jsstring list"

definition PROPERTIES :: "property list" where
  "PROPERTIES =
     [\<lparr>propId = js ''p_001'', address1 = js ''123 Oak Street'', city = js ''Austin'',
       state = js ''TX'', zipCode = js ''78701'', beds = 3, baths = 2, sqft = 1850,
       lotSqft = 7200, yearBuilt = 2018, hasGarage = True, propType = js ''Single Family'',
       listPrice = 485000, estValue = 510000, photo = js ''hero-house.jpg'',
       photos = [js ''hero-house.jpg'', js ''houses-grid.jpg'']\<rparr>,
      \<lparr>propId = js ''p_002'', address1 = js ''456 Pine Avenue'', city = js ''Dallas'',
       state = js ''TX'', zipCode = js ''75201'', beds = 4, baths = 3, sqft = 2200,
       lotSqft = 8500, yearBuilt = 2020, hasGarage = True, propType = js ''Single Family'',
       listPrice = 625000, estValue = 645000, photo = js ''houses-grid.jpg'',
       photos = [js ''houses-grid.jpg'', js ''investment-house.jpg'']\<rparr>,
      \<lparr>propId = js ''p_003'', address1 = js ''789 Maple Drive'', city = js ''Houston'',
       state = js ''TX'', zipCode = js ''77001'', beds = 2, baths = 2, sqft = 1200,
       lotSqft = 5000, yearBuilt = 2015, hasGarage = False, propType = js ''Condo'',
       listPrice = 285000, estValue = 295000, photo = js ''investment-house.jpg'',
       photos = [js ''investment-house.jpg'', js ''hero-house.jpg'']\<rparr>]"

text \<open>
  What the script writes into an element. The markup of a template literal is fixed text;
  only the values interpolated into it are kept, as a record per template.
\<close>

record property_card =
  cardPropertyId :: jsstring
  cardPhoto :: jsstring
  cardAddress :: jsstring
  cardCity :: jsstring
  cardState :: jsstring
  cardZip :: jsstring
  cardBeds :: int
  cardBaths :: int
  cardType :: jsstring
  cardListPrice :: jsstring
  cardEstValue :: jsstring
  cardSavingsClass :: jsstring
  cardSavingsText :: jsstring

record facts =
  factBedrooms :: int
  factBathrooms :: int
  factSquareFeet :: "int option"
  factLotSize :: "int option"
  factYearBuilt :: "int option"
  factGarage :: jsstring
  factPropertyType :: jsstring

datatype content =
  Markup jsstring
  | TextContent jsstring
  | PropertyCards "property_card list"
  | FactsGrid facts
  | PhotoStrip "jsstring list"

text \<open>
  An element of the page, with the properties the script reads or writes. An element
  without an \<^verbatim>\<open>id\<close> attribute has the empty \<open>elId\<close>, which no lookup finds.
  \<open>className\<close> is the list of the class names of the element, \<open>display\<close> is
  \<^verbatim>\<open>style.display\<close>, and \<open>content\<close> is what \<^verbatim>\<open>innerHTML\<close> or \<^verbatim>\<open>textContent\<close> was set to.
\<close>

record element =
  elId :: jsstring
  className :: "jsstring list"
  display :: jsstring
  elValue :: jsstring
  checked :: bool
  content :: content
  src :: jsstring
  alt :: jsstring

type_synonym document = "element list"

definition getElementById :: "document \<Rightarrow> jsstring \<Rightarrow> element option" where
  "getElementById d i = (if i = [] then None else find (\<lambda>e. elId e = i) d)"

text \<open>Assignments through the reference that \<^verbatim>\<open>getElementById\<close> returned.\<close>

fun updateById :: "jsstring \<Rightarrow> (element \<Rightarrow> element) \<Rightarrow> document \<Rightarrow> document" where
  "updateById i f [] = []"
| "updateById i f (e # es) =
     (if i \<noteq> [] \<and> elId e = i then f e # es else e # updateById i f es)"

section \<open>The search form of the demo page\<close>

text \<open>\<^verbatim>\<open>document.getElementById(id)?.checked\<close>, read as a condition.\<close>

definition isChecked :: "document \<Rightarrow> jsstring \<Rightarrow> bool" where
  "isChecked d i = (case getElementById d i of None \<Rightarrow> False | Some e \<Rightarrow> checked e)"

text \<open>\<^verbatim>\<open>document.getElementById(id)?.value\<close>; \<open>None\<close> is \<^verbatim>\<open>undefined\<close>.\<close>

definition valueOf :: "document \<Rightarrow> jsstring \<Rightarrow> jsstring option" where
  "valueOf d i = map_option elValue (getElementById d i)"

definition getSelectedStrategies :: "document \<Rightarrow> jsstring list" where
  "getSelectedStrategies d =
     (let primaryResidence = isChecked d (js ''primary-residence'');
          fixFlip = isChecked d (js ''fix-flip'');
          rentalProperty = isChecked d (js ''rental-property'');
          multiFamily = isChecked d (js ''multi-family'');
          quickDeals = isChecked d (js ''quick-deals'')
      in (if primaryResidence then [js ''primary-residence''] else [])
         @ (if fixFlip then [js ''fix-flip''] else [])
         @ (if rentalProperty then [js ''rental-property''] else [])
         @ (if multiFamily then [js ''multi-family''] else [])
         @ (if quickDeals then [js ''quick-deals''] else []))"

text \<open>The five category tags, the ids of the five check boxes of the form.\<close>

definition categoryTags :: "jsstring list" where
  "categoryTags =
     [js ''primary-residence'', js ''fix-flip'', js ''rental-property'',
      js ''multi-family'', js ''quick-deals'']"

text \<open>
  The object that \<open>getSearchFormData\<close> returns. Its \<^verbatim>\<open>budget\<close> has the fields \<^verbatim>\<open>min\<close>,
  \<^verbatim>\<open>max\<close> and \<^verbatim>\<open>customBudget\<close>; the first two are \<open>minPrice\<close> and \<open>maxPrice\<close> here,
  after the local variables that fill them. \<open>customBudget\<close> is \<open>None\<close> when the toggle is
  missing from the page (\<^verbatim>\<open>undefined\<close>).
\<close>

record budget =
  minPrice :: int
  maxPrice :: int
  customBudget :: "bool option"

record search_data =
  location :: jsstring
  propertyTypes :: "jsstring list"
  budget :: budget

definition getSearchFormData :: "document \<Rightarrow> search_data" where
  "getSearchFormData d =
     (let customBudgetEnabled = map_option checked (getElementById d (js ''custom-budget-toggle''));
          minP = (if customBudgetEnabled = Some True
                  then orZero (parseInt (valueOf d (js ''custom-min-price'')))
                  else orZero (parseInt (valueOf d (js ''min-price''))));
          maxP = (if customBudgetEnabled = Some True
                  then orZero (parseInt (valueOf d (js ''custom-max-price'')))
                  else orZero (parseInt (valueOf d (js ''max-price''))));
          loc = (case valueOf d (js ''demo-location'') of None \<Rightarrow> [] | Some v \<Rightarrow> v)
      in \<lparr>location = loc, propertyTypes = getSelectedStrategies d,
          budget = \<lparr>minPrice = minP, maxPrice = maxP, customBudget = customBudgetEnabled\<rparr>\<rparr>)"

text \<open>
  \<open>validateBudgetRange\<close> is a function local to \<open>initBudgetFunctionality\<close>, which returns
  before it defines it when the page has no element \<^verbatim>\<open>custom-budget-toggle\<close> or none
  \<^verbatim>\<open>custom-budget-inputs\<close>: \<open>None\<close> stands for "there is no such listener". Where it
  exists it is registered on the four budget fields; it reads \<^verbatim>\<open>customBudgetToggle.checked\<close>
  and then the same fields as \<open>getSearchFormData\<close>. Its warning goes to the console, which
  is not modelled; its result goes back to the event dispatcher. The script looks the
  elements up once and the listener uses those references; it never removes or replaces
  them, so looking them up when the listener runs finds the same elements.
\<close>

definition validateBudgetRange :: "document \<Rightarrow> bool option" where
  "validateBudgetRange d =
     (case getElementById d (js ''custom-budget-toggle'') of
        None \<Rightarrow> None
      | Some customBudgetToggle \<Rightarrow>
          (case getElementById d (js ''custom-budget-inputs'') of
             None \<Rightarrow> None
           | Some customBudgetInputs \<Rightarrow>
               (let isCustom = checked customBudgetToggle;
                    minVal = (if isCustom
                              then orZero (parseInt (valueOf d (js ''custom-min-price'')))
                              else orZero (parseInt (valueOf d (js ''min-price''))));
                    maxVal = (if isCustom
                              then orZero (parseInt (valueOf d (js ''custom-max-price'')))
                              else orZero (parseInt (valueOf d (js ''max-price''))))
                in Some (if minVal > 0 \<and> maxVal > 0 \<and> minVal \<ge> maxVal then False
                         else True))))"

record frontend_data =
  fd_location :: jsstring
  property_types :: "jsstring list"
  budget_min :: "int option"
  budget_max :: "int option"

record chat_session =
  session_id :: jsstring
  message :: jsstring

text \<open>
  The state of the page: the document, the two global variables \<open>currentPage\<close> and
  \<open>selectedProperty\<close>, the callbacks handed to \<^verbatim>\<open>setTimeout\<close> that have not run yet,
  the alerts shown so far, the bodies of the \<^verbatim>\<open>POST /chat/start\<close> requests sent so far,
  and the calls of \<open>updateExistingChatbot\<close> made so far (the chat widget, modelled
  below, receives each as an event). Writing to the console and
  \<^verbatim>\<open>lucide.createIcons()\<close>, which redraws icons, are not modelled.
\<close>

datatype task = InitDemoPage | InitPricingPage | InitAnalyzerPage | InitChatPage

record app =
  doc :: document
  currentPage :: jsstring
  selectedProperty :: "property option"
  timeouts :: "task list"
  alerts :: "jsstring list"
  requests :: "frontend_data list"
  chatbotUpdates :: "(chat_session \<times> frontend_data) list"

definition alert :: "jsstring \<Rightarrow> app \<Rightarrow> app" where
  "alert msg st = st\<lparr>alerts := alerts st @ [msg]\<rparr>"

definition validateSearchData :: "search_data \<Rightarrow> app \<Rightarrow> bool \<times> app" where
  "validateSearchData data st =
     (if location data = [] \<or> trim (location data) = []
      then (False, alert (js ''Please enter a location (city, state, ZIP code, or address)'') st)
      else if length (propertyTypes data) = 0
      then (False, alert (js ''Please select at least one property type'') st)
      else (True, st))"

definition showLoadingState :: "app \<Rightarrow> app" where
  "showLoadingState st =
     st\<lparr>doc := updateById (js ''demo-loading'') (\<lambda>e. e\<lparr>display := js ''flex''\<rparr>) (doc st)\<rparr>"

definition hideLoadingState :: "app \<Rightarrow> app" where
  "hideLoadingState st =
     st\<lparr>doc := updateById (js ''demo-loading'') (\<lambda>e. e\<lparr>display := js ''none''\<rparr>) (doc st)\<rparr>"

definition showSearchError :: "jsstring \<Rightarrow> app \<Rightarrow> app" where
  "showSearchError msg st = alert (js ''Search Error: '' @ msg) st"

text \<open>
  The answer of the network to \<^verbatim>\<open>fetch(.../chat/start)\<close>, as the script tells the cases
  apart: the promise is rejected (with the error's message), the response is not
  \<^verbatim>\<open>ok\<close> (status and body text), the body is not JSON (with the error's message), or the
  body is a session.
\<close>

datatype fetch_outcome =
  Rejected jsstring
  | NotOk nat jsstring
  | BadJson jsstring
  | Session chat_session

text \<open>\<^verbatim>\<open>String(n)\<close> for a natural number.\<close>

fun decimal :: "nat \<Rightarrow> jsstring" where
  "decimal n = (if n < 10 then [0x30 + n] else decimal (n div 10) @ [0x30 + n mod 10])"

declare decimal.simps [simp del]

text \<open>The object \<^verbatim>\<open>frontendData\<close> that \<open>startChatbotWithFormData\<close> builds and sends.\<close>

definition frontendData :: "search_data \<Rightarrow> frontend_data" where
  "frontendData searchData =
     \<lparr>fd_location = location searchData,
      property_types = propertyTypes searchData,
      budget_min = orNull (minPrice (budget searchData)),
      budget_max = orNull (maxPrice (budget searchData))\<rparr>"

text \<open>
  \<open>startChatbotWithFormData\<close> returns the message of the error it rethrows, or \<open>None\<close>
  when it completes. \<open>net\<close> is the network's answer to the request. The asynchronous
  function is run to completion: nothing in it depends on what happens between its steps.
  The call of \<open>updateExistingChatbot\<close> is recorded in \<open>chatbotUpdates\<close> and taken to
  complete. It runs inside the \<^verbatim>\<open>try\<close> block: on a page whose chat widget lacks some of
  its elements it throws, and the script then alerts as for the other failures, with the
  browser's message of the error. That case is not covered here; the requests sent are
  the same in it.
\<close>

definition startChatbotWithFormData ::
  "(frontend_data \<Rightarrow> fetch_outcome) \<Rightarrow> search_data \<Rightarrow> app \<Rightarrow> jsstring option \<times> app" where
  "startChatbotWithFormData net searchData st =
     (let fd = frontendData searchData;
          failWith = (\<lambda>msg s.
            (Some msg,
             alert (js ''Sorry, there was an error connecting to the chatbot: '' @ msg
                    @ js ''. Please make sure the chatbot server is running on port 8001.'') s))
      in if getElementById (doc st) (js ''chatbot-widget'') = None
         then failWith (js ''Chatbot widget not found'') st
         else
           (let st1 = st\<lparr>requests := requests st @ [fd]\<rparr>
            in case net fd of
                 Rejected msg \<Rightarrow> failWith msg st1
               | NotOk status errorText \<Rightarrow>
                   failWith (js ''HTTP error! status: '' @ decimal status @ js '' - '' @ errorText) st1
               | BadJson msg \<Rightarrow> failWith msg st1
               | Session chatSession \<Rightarrow>
                   (None, st1\<lparr>chatbotUpdates := chatbotUpdates st1 @ [(chatSession, fd)]\<rparr>)))"

definition handleSearch :: "(frontend_data \<Rightarrow> fetch_outcome) \<Rightarrow> app \<Rightarrow> app" where
  "handleSearch net st =
     (let searchData = getSearchFormData (doc st)
      in case validateSearchData searchData st of
           (False, st1) \<Rightarrow> st1
         | (True, st1) \<Rightarrow>
             (let st2 = showLoadingState st1
              in case startChatbotWithFormData net searchData st2 of
                   (Some msg, st3) \<Rightarrow> hideLoadingState (showSearchError msg st3)
                 | (None, st3) \<Rightarrow> hideLoadingState st3))"

section \<open>Pages, listings and property details\<close>

text \<open>
  \<open>formatMoney\<close>: \<^verbatim>\<open>Intl.NumberFormat('en-US', {style: 'currency', currency: 'USD'})\<close>
  with no fraction digits, on an integer amount: a minus sign for a negative amount, the
  dollar sign, and the digits in groups of three.
\<close>

definition threeDigits :: "nat \<Rightarrow> jsstring" where
  "threeDigits n = [0x30 + n div 100 mod 10, 0x30 + n div 10 mod 10, 0x30 + n mod 10]"

fun grouped :: "nat \<Rightarrow> jsstring" where
  "grouped n =
     (if n < 1000 then decimal n else grouped (n div 1000) @ js '','' @ threeDigits (n mod 1000))"

declare grouped.simps [simp del]

definition formatMoney :: "int \<Rightarrow> jsstring" where
  "formatMoney amount =
     (if amount < 0 then js ''-$'' @ grouped (nat (- amount)) else js ''$'' @ grouped (nat amount))"

text \<open>
  The two conditional expressions of \<open>renderProperties\<close> that choose the class and the
  text of the savings line from \<^verbatim>\<open>savings = property.estValue - property.listPrice\<close>.
\<close>

definition savingsClass :: "int \<Rightarrow> jsstring" where
  "savingsClass savings =
     (if savings > 0 then js ''positive'' else if savings < 0 then js ''negative''
      else js ''neutral'')"

definition savingsText :: "int \<Rightarrow> jsstring" where
  "savingsText savings =
     (if savings > 0 then js ''You save '' @ formatMoney savings
      else if savings < 0 then formatMoney savings
      else js ''Fair value'')"

text \<open>The card that the callback of \<^verbatim>\<open>PROPERTIES.map\<close> builds for one listing.\<close>

definition propertyCard :: "property \<Rightarrow> property_card" where
  "propertyCard property =
     (let savings = estValue property - listPrice property
      in \<lparr>cardPropertyId = propId property, cardPhoto = photo property,
          cardAddress = address1 property, cardCity = city property,
          cardState = state property, cardZip = zipCode property,
          cardBeds = beds property, cardBaths = baths property,
          cardType = propType property,
          cardListPrice = formatMoney (listPrice property),
          cardEstValue = formatMoney (estValue property),
          cardSavingsClass = savingsClass savings,
          cardSavingsText = savingsText savings\<rparr>)"

definition renderProperties :: "document \<Rightarrow> document" where
  "renderProperties d =
     (case getElementById d (js ''properties-grid'') of
        None \<Rightarrow> d
      | Some container \<Rightarrow>
          updateById (js ''properties-grid'')
            (\<lambda>e. e\<lparr>content := PropertyCards (map propertyCard PROPERTIES)\<rparr>) d)"

text \<open>
  \<open>renderPropertyDetails\<close> fills the elements of the details page that exist; an update
  of a missing element is skipped, as the guards of the source do.
\<close>

definition factsGrid :: "property \<Rightarrow> facts" where
  "factsGrid property =
     \<lparr>factBedrooms = beds property,
      factBathrooms = baths property,
      factSquareFeet = (if sqft property \<noteq> 0 then Some (sqft property) else None),
      factLotSize = (if lotSqft property \<noteq> 0 then Some (lotSqft property) else None),
      factYearBuilt = (if yearBuilt property \<noteq> 0 then Some (yearBuilt property) else None),
      factGarage = (if hasGarage property then js ''Yes'' else js ''No''),
      factPropertyType = propType property\<rparr>"

definition renderPropertyDetails :: "property \<Rightarrow> document \<Rightarrow> document" where
  "renderPropertyDetails property d =
     (let d1 = updateById (js ''property-hero-image'')
                 (\<lambda>e. e\<lparr>src := photo property,
                         alt := address1 property @ js '', '' @ city property\<rparr>) d;
          d2 = updateById (js ''property-address'')
                 (\<lambda>e. e\<lparr>content := TextContent
                         (address1 property @ js '', '' @ city property @ js '', ''
                          @ state property @ js '' '' @ zipCode property)\<rparr>) d1;
          d3 = updateById (js ''property-list-price'')
                 (\<lambda>e. e\<lparr>content := TextContent (formatMoney (listPrice property))\<rparr>) d2;
          d4 = updateById (js ''property-est-value'')
                 (\<lambda>e. e\<lparr>content := TextContent (formatMoney (estValue property))\<rparr>) d3;
          savings = estValue property - listPrice property;
          d5 = updateById (js ''property-savings'')
                 (\<lambda>e. if savings > 0
                      then e\<lparr>content := TextContent (js ''You save '' @ formatMoney savings),
                             className := [js ''savings-pill'', js ''positive'']\<rparr>
                      else if savings < 0
                      then e\<lparr>content := TextContent (formatMoney savings),
                             className := [js ''savings-pill'', js ''negative'']\<rparr>
                      else e\<lparr>content := TextContent (js ''Fair value''),
                             className := [js ''savings-pill'', js ''neutral'']\<rparr>) d4;
          d6 = updateById (js ''property-facts'')
                 (\<lambda>e. e\<lparr>content := FactsGrid (factsGrid property)\<rparr>) d5
      in updateById (js ''photo-strip'')
           (\<lambda>e. if length (photos property) > 1
                then e\<lparr>display := js ''block'', content := PhotoStrip (photos property)\<rparr>
                else e\<lparr>display := js ''none''\<rparr>) d6)"

text \<open>
  The table \<open>pages\<close>, by its own keys. \<^verbatim>\<open>pages[pageId]\<close> also finds what every object
  inherits from \<^verbatim>\<open>Object.prototype\<close>; \<open>inheritedNames\<close> lists those property names. For
  them the value is a function or an object whose conversion to an element id depends on
  the browser, and the model of \<open>showPage\<close> does not cover them.
\<close>

definition pages :: "(jsstring \<times> jsstring) list" where
  "pages =
     [(js ''home'', js ''home-page''),
      (js ''demo'', js ''demo-page''),
      (js ''marketplace'', js ''marketplace-page''),
      (js ''property-details'', js ''property-details-page''),
      (js ''pricing'', js ''pricing-page''),
      (js ''signin'', js ''signin-page''),
      (js ''signup'', js ''signup-page''),
      (js ''analyzer'', js ''analyzer-page''),
      (js ''chat'', js ''chat-page''),
      (js ''agent-connect'', js ''agent-connect-page'')]"

definition inheritedNames :: "jsstring list" where
  "inheritedNames =
     [js ''constructor'', js ''hasOwnProperty'', js ''isPrototypeOf'',
      js ''propertyIsEnumerable'', js ''toLocaleString'', js ''toString'', js ''valueOf'',
      js ''__proto__'', js ''__defineGetter__'', js ''__defineSetter__'',
      js ''__lookupGetter__'', js ''__lookupSetter__'']"

text \<open>\<^verbatim>\<open>pages[pageId] || pages['home']\<close>.\<close>

definition targetPageId :: "jsstring \<Rightarrow> jsstring" where
  "targetPageId pageId =
     (case map_of pages pageId of Some v \<Rightarrow> v | None \<Rightarrow> the (map_of pages (js ''home'')))"

text \<open>The loop over \<^verbatim>\<open>document.querySelectorAll('.page')\<close> in \<open>showPage\<close>.\<close>

definition hidePages :: "document \<Rightarrow> document" where
  "hidePages d =
     map (\<lambda>page. if js ''page'' \<in> set (className page) then page\<lparr>display := js ''none''\<rparr>
                  else page) d"

definition showPage :: "jsstring \<Rightarrow> app \<Rightarrow> app" where
  "showPage pageId a =
     (let d1 = hidePages (doc a);
          target = targetPageId pageId
      in case getElementById d1 target of
           None \<Rightarrow> a\<lparr>doc := d1\<rparr>
         | Some targetPage \<Rightarrow>
             (let d2 = updateById target (\<lambda>e. e\<lparr>display := js ''block''\<rparr>) d1;
                  a2 = a\<lparr>doc := d2, currentPage := pageId\<rparr>
              in if pageId = js ''marketplace'' then a2\<lparr>doc := renderProperties d2\<rparr>
                 else if pageId = js ''demo'' then a2\<lparr>timeouts := timeouts a2 @ [InitDemoPage]\<rparr>
                 else if pageId = js ''pricing''
                 then a2\<lparr>timeouts := timeouts a2 @ [InitPricingPage]\<rparr>
                 else if pageId = js ''analyzer''
                 then a2\<lparr>timeouts := timeouts a2 @ [InitAnalyzerPage]\<rparr>
                 else if pageId = js ''chat'' then a2\<lparr>timeouts := timeouts a2 @ [InitChatPage]\<rparr>
                 else a2))"

definition showPropertyDetails :: "jsstring \<Rightarrow> app \<Rightarrow> app" where
  "showPropertyDetails propertyId a =
     (case find (\<lambda>p. propId p = propertyId) PROPERTIES of
        None \<Rightarrow> a
      | Some property \<Rightarrow>
          (let a1 = a\<lparr>selectedProperty := Some property\<rparr>;
               a2 = showPage (js ''property-details'') a1
           in a2\<lparr>doc := renderPropertyDetails property (doc a2)\<rparr>))"

section \<open>The chat widget: formatting a message\<close>

text \<open>
  The regular expressions of \<open>formatMessage\<close> have no \<^verbatim>\<open>u\<close> flag, so they work on code
  units: \<^verbatim>\<open>.\<close> is any code unit but a line terminator, and a character class that
  lists emoji is the set of their surrogate code units.
\<close>

definition isLineTerminator :: "nat \<Rightarrow> bool" where
  "isLineTerminator c = (c = 0xA \<or> c = 0xD \<or> c = 0x2028 \<or> c = 0x2029)"

text \<open>\<^verbatim>\<open>.replace(/\n/g, '<br>')\<close>\<close>

definition replaceNewlines :: "jsstring \<Rightarrow> jsstring" where
  "replaceNewlines s = concat (map (\<lambda>c. if c = 0xA then js ''<br>'' else [c]) s)"

text \<open>
  \<^verbatim>\<open>(.*?)\<close> followed by a literal: the shortest run of code units, none a line
  terminator, after which the literal stands; the result is the run and what follows
  the literal.
\<close>

fun lazyUpTo :: "jsstring \<Rightarrow> jsstring \<Rightarrow> (jsstring \<times> jsstring) option" where
  "lazyUpTo delim [] = (if delim = [] then Some ([], []) else None)"
| "lazyUpTo delim (c # cs) =
     (if take (length delim) (c # cs) = delim then Some ([], drop (length delim) (c # cs))
      else if isLineTerminator c then None
      else map_option (\<lambda>(cap, rest). (c # cap, rest)) (lazyUpTo delim cs))"

lemma lazyUpTo_length:
  "lazyUpTo delim s = Some (cap, rest) \<Longrightarrow> length rest \<le> length s"
  by (induction s arbitrary: cap) (auto split: if_splits)

text \<open>
  \<^verbatim>\<open>.replace(/DELIM(.*?)DELIM/g, 'OPEN$1CLOSE')\<close> for a literal delimiter: the matches are
  found from left to right, each search starting where the last match ended.
\<close>

function replaceDelimited :: "jsstring \<Rightarrow> jsstring \<Rightarrow> jsstring \<Rightarrow> jsstring \<Rightarrow> jsstring" where
  "replaceDelimited delim startTag endTag s =
     (case s of
        [] \<Rightarrow> []
      | c # cs \<Rightarrow>
          if delim \<noteq> [] \<and> take (length delim) s = delim
          then (case lazyUpTo delim (drop (length delim) s) of
                  Some (cap, rest) \<Rightarrow>
                    startTag @ cap @ endTag @ replaceDelimited delim startTag endTag rest
                | None \<Rightarrow> c # replaceDelimited delim startTag endTag cs)
          else c # replaceDelimited delim startTag endTag cs)"
  by pat_completeness auto
termination
  apply (relation "measure (\<lambda>(delim, startTag, endTag, s). length s)")
     apply simp
    apply (auto dest!: lazyUpTo_length)
  subgoal for delim c cs rest by (cases delim) auto
  done

declare replaceDelimited.simps [simp del]

text \<open>The value of the local variable \<^verbatim>\<open>formatted\<close> for the argument \<^verbatim>\<open>content\<close>, here \<open>body\<close>.\<close>

definition formatted :: "jsstring \<Rightarrow> jsstring" where
  "formatted body =
     replaceDelimited (js ''*'') (js ''<em>'') (js ''</em>'')
       (replaceDelimited (js ''**'') (js ''<strong>'') (js ''</strong>'')
          (replaceNewlines body))"

text \<open>\<^verbatim>\<open>String.prototype.includes\<close>; the name \<open>includes\<close> is taken by Isabelle.\<close>

fun includesJs :: "jsstring \<Rightarrow> jsstring \<Rightarrow> bool" where
  "includesJs [] needle = (needle = [])"
| "includesJs (c # cs) needle = (take (length needle) (c # cs) = needle \<or> includesJs cs needle)"

text \<open>The emoji of the patterns, as their code units.\<close>

definition house :: jsstring where "house = [0xD83C, 0xDFE0]"
definition pin :: jsstring where "pin = [0xD83D, 0xDCCD]"
definition calendar :: jsstring where "calendar = [0xD83D, 0xDCC5]"
definition robot :: jsstring where "robot = [0xD83E, 0xDD16]"
definition garden :: jsstring where "garden = [0xD83C, 0xDFE1]"
definition replacement :: nat where "replacement = 0xFFFD"

text \<open>
  The class \<^verbatim>\<open>[...]\<close> of four emoji before \<^verbatim>\<open>Fair Value (AI)\<close>: one code unit out of
  their eight surrogates (six different ones).
\<close>

definition priceIcon :: "nat \<Rightarrow> bool" where
  "priceIcon c = (c = 0xD83C \<or> c = 0xDFAF \<or> c = 0xD83D \<or> c = 0xDCCA \<or> c = 0xDCC8 \<or> c = 0xDCB0)"

text \<open>A literal, one code unit of a class, and a greedy \<^verbatim>\<open>+\<close> of a class.\<close>

definition lit :: "jsstring \<Rightarrow> jsstring \<Rightarrow> jsstring option" where
  "lit l s = (if take (length l) s = l then Some (drop (length l) s) else None)"

definition oneOf :: "(nat \<Rightarrow> bool) \<Rightarrow> jsstring \<Rightarrow> jsstring option" where
  "oneOf cls s = (case s of [] \<Rightarrow> None | c # cs \<Rightarrow> if cls c then Some cs else None)"

definition many1 :: "(nat \<Rightarrow> bool) \<Rightarrow> jsstring \<Rightarrow> (jsstring \<times> jsstring) option" where
  "many1 cls s = (if takeWhile cls s = [] then None else Some (takeWhile cls s, dropWhile cls s))"

definition isDigit :: "nat \<Rightarrow> bool" where
  "isDigit c = (0x30 \<le> c \<and> c \<le> 0x39)"

definition notLt :: "nat \<Rightarrow> bool" where
  "notLt c = (c \<noteq> 0x3C)"

text \<open>
  An optional group \<^verbatim>\<open>(?:...)?\<close> with one capture: the group is taken when it matches
  here, and skipped otherwise. Nothing after a group of \<open>propertyPattern\<close> can fail, so
  the first choice stands.
\<close>

definition optional :: "(jsstring \<Rightarrow> (jsstring \<times> jsstring) option) \<Rightarrow> jsstring
    \<Rightarrow> jsstring option \<times> jsstring" where
  "optional g s = (case g s of Some (cap, rest) \<Rightarrow> (Some cap, rest) | None \<Rightarrow> (None, s))"

text \<open>The captures of one match of \<open>propertyPattern\<close>, named as the source destructures them.\<close>

record property_match =
  number :: jsstring
  address :: jsstring
  aiPrice :: "jsstring option"
  listedPrice :: "jsstring option"
  details :: "jsstring option"
  yearBuilt' :: "jsstring option"
  aiConfidence :: "jsstring option"

definition labelled :: "jsstring \<Rightarrow> jsstring \<Rightarrow> (jsstring \<times> jsstring) option" where
  "labelled label s = (case lit label s of None \<Rightarrow> None | Some r \<Rightarrow> many1 notLt r)"

text \<open>\<open>propertyPattern\<close> matched at the start of a string: the captures and the rest.\<close>

definition propertyPattern :: "jsstring \<Rightarrow> (property_match \<times> jsstring) option" where
  "propertyPattern s =
     (case lit (house @ js '' **Property '') s of
        None \<Rightarrow> None
      | Some r1 \<Rightarrow>
     (case many1 isDigit r1 of
        None \<Rightarrow> None
      | Some (num, r2) \<Rightarrow>
     (case labelled (js ''**<br>'' @ pin @ js '' '') r2 of
        None \<Rightarrow> None
      | Some (addr, r3) \<Rightarrow>
          (let (ai, r4) = optional (\<lambda>r. case lit (js ''<br>'') r of
                              None \<Rightarrow> None
                            | Some a \<Rightarrow> (case oneOf priceIcon a of
                                None \<Rightarrow> None
                              | Some b \<Rightarrow> labelled (js '' **Fair Value (AI)**: '') b)) r3;
               (listed, r5) = optional (labelled
                    (js ''<br>'' @ [replacement, 0xFE0F] @ js '' **Listed Price**: '')) r4;
               (det, r6) = optional (labelled
                    (js ''<br>'' @ [replacement] @ garden @ js '' '')) r5;
               (year, r7) = optional (labelled (js ''<br>'' @ calendar @ js '' Built: '')) r6;
               (conf, r8) = optional (labelled (js ''<br>'' @ robot @ js '' '')) r7
           in Some (\<lparr>number = num, address = addr, aiPrice = ai, listedPrice = listed,
                      details = det, yearBuilt' = year, aiConfidence = conf\<rparr>, r8)))))"

lemma lit_length: "lit l s = Some r \<Longrightarrow> length r \<le> length s"
  by (auto simp: lit_def split: if_splits)

lemma many1_length: "many1 cls s = Some (a, r) \<Longrightarrow> length r < length s"
  by (cases s) (auto simp: many1_def length_dropWhile_le le_imp_less_Suc split: if_splits)

lemma labelled_length: "labelled l s = Some (a, r) \<Longrightarrow> length r < length s"
  by (auto simp: labelled_def split: option.splits dest!: lit_length many1_length)

lemma optional_length:
  assumes "\<And>a r. g s = Some (a, r) \<Longrightarrow> length r \<le> length s"
  shows "length (snd (optional g s)) \<le> length s"
  using assms by (auto simp: optional_def split: option.splits)

lemma optional_labelled_length: "length (snd (optional (labelled l) s)) \<le> length s"
  by (rule optional_length) (auto dest: labelled_length)

lemma propertyPattern_length:
  assumes "propertyPattern s = Some (m, rest)"
  shows "length rest < length s"
proof -
  from assms obtain r1 num r2 addr r3 where
    r1: "lit (house @ js '' **Property '') s = Some r1"
    and r2: "many1 isDigit r1 = Some (num, r2)"
    and r3: "labelled (js ''**<br>'' @ pin @ js '' '') r2 = Some (addr, r3)"
    by (auto simp: propertyPattern_def split: option.splits)
  let ?g = "\<lambda>r. case lit (js ''<br>'') r of
                None \<Rightarrow> None
              | Some a \<Rightarrow> (case oneOf priceIcon a of
                  None \<Rightarrow> None
                | Some b \<Rightarrow> labelled (js '' **Fair Value (AI)**: '') b)"
  let ?r4 = "snd (optional ?g r3)"
  let ?r5 = "snd (optional (labelled
        (js ''<br>'' @ [replacement, 0xFE0F] @ js '' **Listed Price**: '')) ?r4)"
  let ?r6 = "snd (optional (labelled (js ''<br>'' @ [replacement] @ garden @ js '' '')) ?r5)"
  let ?r7 = "snd (optional (labelled (js ''<br>'' @ calendar @ js '' Built: '')) ?r6)"
  let ?r8 = "snd (optional (labelled (js ''<br>'' @ robot @ js '' '')) ?r7)"
  have rest: "rest = ?r8"
    using assms r1 r2 r3 by (simp add: propertyPattern_def Let_def split: prod.splits)
  have "length ?r4 \<le> length r3"
    by (rule optional_length)
       (auto simp: oneOf_def split: option.splits list.splits if_splits
          dest!: lit_length labelled_length)
  moreover have "length ?r5 \<le> length ?r4" by (rule optional_labelled_length)
  moreover have "length ?r6 \<le> length ?r5" by (rule optional_labelled_length)
  moreover have "length ?r7 \<le> length ?r6" by (rule optional_labelled_length)
  moreover have "length ?r8 \<le> length ?r7" by (rule optional_labelled_length)
  moreover have "length r3 < length r2" using r3 by (rule labelled_length)
  moreover have "length r2 < length r1" using r2 by (rule many1_length)
  moreover have "length r1 \<le> length s" using r1 by (rule lit_length)
  ultimately show ?thesis using rest by simp
qed

text \<open>
  The loop \<^verbatim>\<open>while ((match = propertyPattern.exec(formatted)) !== null)\<close>: with the
  \<^verbatim>\<open>g\<close> flag each call finds the leftmost match at or after the end of the last one.
\<close>

function propertyMatches :: "jsstring \<Rightarrow> property_match list" where
  "propertyMatches s =
     (case propertyPattern s of
        Some (m, rest) \<Rightarrow> m # propertyMatches rest
      | None \<Rightarrow> (case s of [] \<Rightarrow> [] | c # cs \<Rightarrow> propertyMatches cs))"
  by pat_completeness auto
termination
  by (relation "measure length") (auto dest: propertyPattern_length)

declare propertyMatches.simps [simp del]

text \<open>
  \<^verbatim>\<open>content.match(/^(.*?)HOUSE \*\*Property/s)\<close>: with the \<^verbatim>\<open>s\<close> flag the capture is
  whatever stands before the first occurrence of the literal.
\<close>

fun beforeFirst :: "jsstring \<Rightarrow> jsstring \<Rightarrow> jsstring option" where
  "beforeFirst needle [] = (if needle = [] then Some [] else None)"
| "beforeFirst needle (c # cs) =
     (if take (length needle) (c # cs) = needle then Some []
      else map_option ((#) c) (beforeFirst needle cs))"

definition introMatch :: "jsstring \<Rightarrow> jsstring option" where
  "introMatch body = beforeFirst (house @ js '' **Property'') body"

text \<open>
  \<^verbatim>\<open>content.match(/ROBOT [^<]+<br><br>(.*)$/s)\<close>: the capture of the leftmost match is
  the rest of the string.
\<close>

fun outroMatch :: "jsstring \<Rightarrow> jsstring option" where
  "outroMatch [] = None"
| "outroMatch (c # cs) =
     (case labelled (robot @ js '' '') (c # cs) of
        None \<Rightarrow> outroMatch cs
      | Some (conf, r) \<Rightarrow>
          (case lit (js ''<br><br>'') r of Some rest \<Rightarrow> Some rest | None \<Rightarrow> outroMatch cs))"

text \<open>
  What \<open>formatMessage\<close> returns: the formatted text, or the markup of the property
  results, kept as the values interpolated into its template (the intro, one card per
  match with the captures of the match, the outro).
\<close>

datatype rendered =
  Html jsstring
  | PropertyResults "jsstring option" "property_match list" "jsstring option"

definition formatMessage :: "jsstring \<Rightarrow> rendered" where
  "formatMessage body =
     (if includesJs body (house @ js '' **Property'') \<and> includesJs body pin
      then (let found = propertyMatches (formatted body)
            in if found \<noteq> []
               then PropertyResults (map_option replaceNewlines (introMatch body)) found
                      (map_option replaceNewlines (outroMatch body))
               else Html (formatted body))
      else Html (formatted body))"

section \<open>The chat widget: sessions and messages\<close>

text \<open>
  One \<open>ChatbotManager\<close>. \<open>sessionId\<close> is \<open>None\<close> for \<^verbatim>\<open>null\<close>; \<open>inputValue\<close> is the
  value of the input field; \<open>chatMessages\<close> are the messages appended so far, each with
  its role and its rendering. The network is part of the state: \<open>startsPending\<close> counts
  the \<^verbatim>\<open>/chat/start\<close> requests of \<open>startSession\<close> that have not settled, \<open>pending\<close>
  holds the \<^verbatim>\<open>/chat/message\<close> requests that have not settled, \<open>sent\<close> all of them in the
  order they were sent, and \<open>followUps\<close> counts the timers of the closing message.
\<close>

record message_request =
  req_session_id :: "jsstring option"
  req_message :: jsstring

record chatbot =
  sessionId :: "jsstring option"
  isOpen :: bool
  isTyping :: bool
  inputValue :: jsstring
  sendDisabled :: bool
  typingDisplay :: jsstring
  chatMessages :: "(jsstring \<times> rendered) list"
  startsPending :: nat
  pending :: "message_request list"
  sent :: "message_request list"
  followUps :: nat

definition newChatbot :: chatbot where
  "newChatbot =
     \<lparr>sessionId = None, isOpen = False, isTyping = False, inputValue = [],
      sendDisabled = False, typingDisplay = [], chatMessages = [], startsPending = 0,
      pending = [], sent = [], followUps = 0\<rparr>"

definition addMessage :: "jsstring \<Rightarrow> jsstring \<Rightarrow> chatbot \<Rightarrow> chatbot" where
  "addMessage role body c = c\<lparr>chatMessages := chatMessages c @ [(role, formatMessage body)]\<rparr>"

definition showTyping :: "chatbot \<Rightarrow> chatbot" where
  "showTyping c = c\<lparr>isTyping := True, typingDisplay := js ''flex'', sendDisabled := True\<rparr>"

definition hideTyping :: "chatbot \<Rightarrow> chatbot" where
  "hideTyping c = c\<lparr>isTyping := False, typingDisplay := js ''none'', sendDisabled := False\<rparr>"

text \<open>
  \<open>sendMessage\<close> up to its \<^verbatim>\<open>await fetch(...)\<close>: the script runs these statements
  without interruption, and the request is on its way when they end.
\<close>

definition sendMessage :: "chatbot \<Rightarrow> chatbot" where
  "sendMessage c =
     (let message = trim (inputValue c)
      in if message = [] \<or> isTyping c then c
         else (let c1 = addMessage (js ''user'') message c;
                   c2 = c1\<lparr>inputValue := []\<rparr>;
                   c3 = showTyping c2;
                   request = \<lparr>req_session_id = sessionId c3, req_message = message\<rparr>
               in c3\<lparr>pending := pending c3 @ [request], sent := sent c3 @ [request]\<rparr>))"

text \<open>
  The rest of \<open>sendMessage\<close>, run when the request settles: with the JSON of the
  response, or with a failure (the promise of \<^verbatim>\<open>fetch\<close> or of \<^verbatim>\<open>json()\<close> is rejected,
  or the response is not \<^verbatim>\<open>ok\<close>). Of the JSON the script reads \<^verbatim>\<open>message\<close> and
  whether \<^verbatim>\<open>completed\<close> and \<^verbatim>\<open>preferences_collected\<close> are truthy; \<open>otherMembers\<close>
  stands for whatever else the object holds, as names with their JSON text.
\<close>

record chat_reply =
  reply_message :: jsstring
  completed :: bool
  preferences_collected :: bool
  otherMembers :: "(jsstring \<times> jsstring) list"

datatype chat_response = Reply chat_reply | Failure

definition messageSettled :: "chat_response \<Rightarrow> chatbot \<Rightarrow> chatbot" where
  "messageSettled resp c =
     (case resp of
        Reply data \<Rightarrow>
          (let c1 = hideTyping c;
               c2 = addMessage (js ''assistant'') (reply_message data) c1
           in if completed data \<and> preferences_collected data
              then c2\<lparr>followUps := followUps c2 + 1\<rparr> else c2)
      | Failure \<Rightarrow>
          addMessage (js ''assistant'')
            (js ''Sorry, I encountered an error processing your message. Please try again.'')
            (hideTyping c))"

definition closingMessage :: jsstring where
  "closingMessage = js ''Perfect! I have all the information I need. Our property finding team will now search for investments that match your criteria. You should hear from us soon with some exciting opportunities!''"

text \<open>\<open>startSession\<close> up to its \<^verbatim>\<open>await\<close>, and its rest when the request settles.\<close>

definition startSession :: "chatbot \<Rightarrow> chatbot" where
  "startSession c = c\<lparr>startsPending := startsPending c + 1\<rparr>"

definition sessionSettled :: "chat_session option \<Rightarrow> chatbot \<Rightarrow> chatbot" where
  "sessionSettled resp c =
     (case resp of
        Some data \<Rightarrow> addMessage (js ''assistant'') (message data) (c\<lparr>sessionId := Some (session_id data)\<rparr>)
      | None \<Rightarrow>
          addMessage (js ''assistant'')
            (js ''Sorry, I encountered an error starting our conversation. Please try refreshing the page.'')
            c)"

text \<open>A session id is truthy when it is a string that is not empty.\<close>

definition truthy :: "jsstring option \<Rightarrow> bool" where
  "truthy v = (case v of None \<Rightarrow> False | Some s \<Rightarrow> s \<noteq> [])"

definition openChat :: "chatbot \<Rightarrow> chatbot" where
  "openChat c =
     (let c1 = c\<lparr>isOpen := True\<rparr>
      in if \<not> truthy (sessionId c1) then startSession c1 else c1)"

definition closeChat :: "chatbot \<Rightarrow> chatbot" where
  "closeChat c = c\<lparr>isOpen := False\<rparr>"

definition toggleChat :: "chatbot \<Rightarrow> chatbot" where
  "toggleChat c = (if isOpen c then closeChat c else openChat c)"

text \<open>
  \<open>createFormDataSummary\<close>. \<^verbatim>\<open>toLocaleString()\<close> is taken in the locale \<^verbatim>\<open>en-US\<close>.
  A number or \<^verbatim>\<open>null\<close> is truthy when it is a number other than zero.
\<close>

definition truthyNumber :: "int option \<Rightarrow> bool" where
  "truthyNumber v = (case v of None \<Rightarrow> False | Some n \<Rightarrow> n \<noteq> 0)"

definition typeMap :: "(jsstring \<times> jsstring) list" where
  "typeMap =
     [(js ''primary-residence'', js ''Primary Residence''),
      (js ''fix-flip'', js ''Fix & Flip''),
      (js ''rental-property'', js ''Rental Property''),
      (js ''multi-family'', js ''Multi-Family''),
      (js ''quick-deals'', js ''Quick Deals'')]"

definition toLocaleString :: "int \<Rightarrow> jsstring" where
  "toLocaleString n = (if n < 0 then js ''-'' @ grouped (nat (- n)) else grouped (nat n))"

fun joinWith :: "jsstring \<Rightarrow> jsstring list \<Rightarrow> jsstring" where
  "joinWith sep [] = []"
| "joinWith sep [x] = x"
| "joinWith sep (x # y # ys) = x @ sep @ joinWith sep (y # ys)"

definition createFormDataSummary :: "frontend_data \<Rightarrow> jsstring" where
  "createFormDataSummary fd =
     (let p1 = (if fd_location fd \<noteq> [] then [pin @ js '' '' @ fd_location fd] else []);
          typeNames = map (\<lambda>t. case map_of typeMap t of Some n \<Rightarrow> n | None \<Rightarrow> t)
                        (property_types fd);
          p2 = (if length (property_types fd) > 0
                then [house @ js '' '' @ joinWith (js '', '') typeNames] else []);
          b1 = (if truthyNumber (budget_min fd)
                then [js ''$'' @ toLocaleString (the (budget_min fd))] else []);
          b2 = (if truthyNumber (budget_max fd)
                then [js ''$'' @ toLocaleString (the (budget_max fd))] else []);
          p3 = (if truthyNumber (budget_min fd) \<or> truthyNumber (budget_max fd)
                then [[0xD83D, 0xDCB0] @ js '' '' @ joinWith (js '' - '') (b1 @ b2)] else [])
      in joinWith (js '' '' @ [0x2022] @ js '' '') (p1 @ p2 @ p3))"

text \<open>
  \<open>updateExistingChatbot\<close> on the existing widget; the notification of
  \<open>showSuccessMessage\<close> is not modelled.
\<close>

definition updateExistingChatbot :: "chat_session \<Rightarrow> frontend_data \<Rightarrow> chatbot \<Rightarrow> chatbot" where
  "updateExistingChatbot chatSession fd c =
     (let c1 = (if truthy (sessionId c) \<and> sessionId c \<noteq> Some (session_id chatSession)
                then c\<lparr>chatMessages := []\<rparr> else c);
          c2 = c1\<lparr>sessionId := Some (session_id chatSession)\<rparr>;
          c3 = (if \<not> isOpen c2 then openChat c2 else c2);
          c4 = addMessage (js ''assistant'') (message chatSession) c3;
          formSummary = createFormDataSummary fd
      in if formSummary \<noteq> []
         then addMessage (js ''system'') ([0xD83D, 0xDCCB] @ js '' '' @ formSummary) c4
         else c4)"

text \<open>
  What can happen to the widget, one event at a time, as the event loop of the browser
  runs them: the user edits the input field, sends (the button or the Enter key), opens
  or closes the window; a pending request settles (\<open>MessageSettles i r\<close> for the request
  at position \<open>i\<close> of \<open>pending\<close>); the timer of the closing message fires; the search
  form hands over the session it started (\<open>updateExistingChatbot\<close>).
\<close>

datatype chat_event =
  Edit jsstring
  | SendClicked
  | Toggle
  | Minimize
  | SessionSettles "chat_session option"
  | MessageSettles nat chat_response
  | TimerFires
  | FormSession chat_session frontend_data

definition chatStep :: "chat_event \<Rightarrow> chatbot \<Rightarrow> chatbot" where
  "chatStep ev c =
     (case ev of
        Edit v \<Rightarrow> c\<lparr>inputValue := v\<rparr>
      | SendClicked \<Rightarrow> sendMessage c
      | Toggle \<Rightarrow> toggleChat c
      | Minimize \<Rightarrow> closeChat c
      | SessionSettles resp \<Rightarrow>
          if startsPending c = 0 then c
          else sessionSettled resp (c\<lparr>startsPending := startsPending c - 1\<rparr>)
      | MessageSettles i resp \<Rightarrow>
          if i < length (pending c)
          then messageSettled resp (c\<lparr>pending := take i (pending c) @ drop (Suc i) (pending c)\<rparr>)
          else c
      | TimerFires \<Rightarrow>
          if followUps c = 0 then c
          else addMessage (js ''assistant'') closingMessage (c\<lparr>followUps := followUps c - 1\<rparr>)
      | FormSession chatSession fd \<Rightarrow> updateExistingChatbot chatSession fd c)"

definition chatRun :: "chat_event list \<Rightarrow> chatbot \<Rightarrow> chatbot" where
  "chatRun evs c = foldl (\<lambda>s ev. chatStep ev s) c evs"

section \<open>The valuation aggregator\<close>

text \<open>
  Modelled from the spec: the valuation aggregator \<^verbatim>\<open>aggregate\<close> of section 4.3 and its
  data (\<^verbatim>\<open>PriceSignal\<close>, \<^verbatim>\<open>ValuationResult\<close> of section 3) belong to the back end of the
  repository, which is not among the source files. The estimator call is the injected
  function; what it can answer is a signal, a failure, a timeout or a response that does
  not parse into a signal.
\<close>

datatype signal_source = MarketAVM | ThirdPartyEstimate | GenerativeEstimate

datatype confidence_level = High | Medium | Low

record price_signal =
  source :: signal_source
  amount :: int
  confidence :: "confidence_level option"
  reasoning :: "jsstring option"

record property_facts =
  factsPropertyId :: jsstring
  characteristics :: "(jsstring \<times> jsstring) list"

record valuation_result =
  resultPropertyId :: jsstring
  signals :: "price_signal list"
  reconciledValue :: int
  reconciledConfidence :: confidence_level
  deltaFromMarket :: int
  isUndervalued :: bool

datatype estimator_outcome =
  Estimate price_signal
  | EstimatorFailed
  | EstimatorTimedOut
  | EstimatorMalformed

datatype aggregation_failure = EstimatorFailure

text \<open>
  Modelled from the spec: a failure of the estimator is "generative signal absent"
  (sections 4.3, 5 and 7).
\<close>

definition generativeSignal :: "estimator_outcome \<Rightarrow> price_signal option" where
  "generativeSignal outcome = (case outcome of Estimate g \<Rightarrow> Some g | _ \<Rightarrow> None)"

text \<open>
  Modelled from the spec: the reconciliation rule of section 4.3. The generative signal
  is used when it is present with confidence \<^verbatim>\<open>high\<close> or \<^verbatim>\<open>medium\<close>.
\<close>

definition usable :: "price_signal option \<Rightarrow> bool" where
  "usable g =
     (case g of
        None \<Rightarrow> False
      | Some s \<Rightarrow> confidence s = Some High \<or> confidence s = Some Medium)"

text \<open>
  Modelled from the spec: \<^verbatim>\<open>aggregate(propertyFacts, marketSignal,
  thirdPartySignalOrNone, estimatorCall)\<close> of section 4.3. The result is a sum so that
  a propagated failure would be a value; by the spec's words there is none.
\<close>

definition aggregate ::
  "property_facts \<Rightarrow> price_signal \<Rightarrow> price_signal option
    \<Rightarrow> (property_facts \<Rightarrow> estimator_outcome) \<Rightarrow> aggregation_failure + valuation_result" where
  "aggregate propertyFacts marketSignal thirdPartySignalOrNone estimatorCall =
     (let generative = generativeSignal (estimatorCall propertyFacts);
          reconciled = (if usable generative then amount (the generative)
                        else amount marketSignal);
          conf = (if usable generative then the (confidence (the generative)) else Medium);
          delta = reconciled - amount marketSignal
      in Inr \<lparr>resultPropertyId = factsPropertyId propertyFacts,
               signals = [marketSignal]
                 @ (case thirdPartySignalOrNone of None \<Rightarrow> [] | Some t \<Rightarrow> [t])
                 @ (case generative of None \<Rightarrow> [] | Some g \<Rightarrow> [g]),
               reconciledValue = reconciled,
               reconciledConfidence = conf,
               deltaFromMarket = delta,
               isUndervalued = (delta > 0)\<rparr>)"

section \<open>Auxiliary notions\<close>

text \<open>A string in which two asterisks stand side by side.\<close>

fun starPair :: "jsstring \<Rightarrow> bool" where
  "starPair (x # y # zs) = ((x = 0x2A \<and> y = 0x2A) \<or> starPair (y # zs))"
| "starPair [x] = False"
| "starPair [] = False"

section \<open>Sample values\<close>

text \<open>The values on which the theorems below are instantiated.\<close>

definition blank :: "jsstring \<Rightarrow> element" where
  "blank i = \<lparr>elId = i, className = [], display = [], elValue = [], checked = False,
              content = Markup [], src = [], alt = []\<rparr>"

definition field :: "jsstring \<Rightarrow> jsstring \<Rightarrow> element" where
  "field i v = (blank i)\<lparr>elValue := v\<rparr>"

definition ticked :: "jsstring \<Rightarrow> element" where
  "ticked i = (blank i)\<lparr>checked := True\<rparr>"

text \<open>
  The demo page with a location, the ticked check boxes, the two price selects, the chat
  widget and the loading indicator.
\<close>

definition demoForm :: "jsstring \<Rightarrow> jsstring list \<Rightarrow> jsstring \<Rightarrow> jsstring \<Rightarrow> document" where
  "demoForm loc boxes lo hi =
     [field (js ''demo-location'') loc] @ map ticked boxes
     @ [field (js ''min-price'') lo, field (js ''max-price'') hi,
        blank (js ''chatbot-widget''), blank (js ''demo-loading'')]"

definition demoState :: "document \<Rightarrow> app" where
  "demoState d =
     \<lparr>doc = d, currentPage = js ''home'', selectedProperty = None, timeouts = [],
      alerts = [], requests = [], chatbotUpdates = []\<rparr>"

definition sampleNet :: "frontend_data \<Rightarrow> fetch_outcome" where
  "sampleNet fd = Session \<lparr>session_id = js ''s-1'', message = js ''Welcome''\<rparr>"

definition searchReady :: app where
  "searchReady = demoState (demoForm (js ''Austin, TX'') [js ''fix-flip''] [] [])"

definition searchNoLocation :: app where
  "searchNoLocation = demoState (demoForm (js ''  '') [js ''fix-flip''] [] [])"

definition searchNoCategory :: app where
  "searchNoCategory = demoState (demoForm (js ''Austin, TX'') [] [] [])"

definition zeroMinForm :: document where
  "zeroMinForm = demoForm (js ''Austin, TX'') [js ''fix-flip''] (js ''0'') (js ''200000'')"

definition noMinForm :: document where
  "noMinForm = demoForm (js ''Austin, TX'') [js ''fix-flip''] [] (js ''200000'')"

text \<open>
  The demo page with the budget toggle, not ticked, and the block of custom inputs: once
  with a minimum above the maximum, once with equal bounds.
\<close>

definition invertedBudgetForm :: document where
  "invertedBudgetForm =
     demoForm (js ''Austin, TX'') [js ''fix-flip''] (js ''500000'') (js ''200000'')
     @ [blank (js ''custom-budget-toggle''), blank (js ''custom-budget-inputs'')]"

definition equalBudgetForm :: document where
  "equalBudgetForm =
     demoForm (js ''Austin, TX'') [js ''fix-flip''] (js ''300000'') (js ''300000'')
     @ [blank (js ''custom-budget-toggle''), blank (js ''custom-budget-inputs'')]"

text \<open>A site with four of the pages (none for pricing) and the elements of the listings.\<close>

definition pageEl :: "jsstring \<Rightarrow> jsstring \<Rightarrow> element" where
  "pageEl i disp = (blank i)\<lparr>className := [js ''page''], display := disp\<rparr>"

definition sitePages :: document where
  "sitePages =
     [pageEl (js ''home-page'') (js ''block''),
      pageEl (js ''demo-page'') (js ''none''),
      pageEl (js ''marketplace-page'') (js ''none''),
      blank (js ''properties-grid''),
      pageEl (js ''property-details-page'') (js ''none''),
      blank (js ''property-savings'')]"

definition siteState :: app where
  "siteState = demoState sitePages"

text \<open>The two scenarios of section 8.\<close>

definition scenarioFacts :: property_facts where
  "scenarioFacts = \<lparr>factsPropertyId = js ''p_001'', characteristics = []\<rparr>"

definition scenarioMarket :: price_signal where
  "scenarioMarket = \<lparr>source = MarketAVM, amount = 450000, confidence = None, reasoning = None\<rparr>"

definition scenarioEstimate :: price_signal where
  "scenarioEstimate =
     \<lparr>source = GenerativeEstimate, amount = 478000, confidence = Some High, reasoning = None\<rparr>"

text \<open>A user who sends \<^verbatim>\<open>hello\<close> and, before any answer, tries to send \<^verbatim>\<open>again\<close>.\<close>

definition impatientUser :: "chat_event list" where
  "impatientUser = [Edit (js ''hello''), SendClicked, Edit (js ''again''), SendClicked]"

text \<open>
  A reply in the format of the back end's property listings, and the text of one
  listing as \<open>propertyPattern\<close> expects it.
\<close>

definition listingReply :: jsstring where
  "listingReply =
     js ''I found 1 property:'' @ [0xA] @ house @ js '' **Property 1**'' @ [0xA]
     @ pin @ js '' 12 Elm St, Miami, FL'' @ [0xA] @ calendar @ js '' Built: 1990''"

definition listingText :: jsstring where
  "listingText =
     house @ js '' **Property 1**<br>'' @ pin @ js '' 12 Elm St, Miami, FL<br>''
     @ calendar @ js '' Built: 1990''"

text \<open>
  Two answers of the server with the same message, one of them with valuation results
  attached as data.
\<close>

definition replyTextOnly :: chat_reply where
  "replyTextOnly =
     \<lparr>reply_message = listingReply, completed = False, preferences_collected = False,
      otherMembers = []\<rparr>"

definition replyWithResults :: chat_reply where
  "replyWithResults =
     \<lparr>reply_message = listingReply, completed = False, preferences_collected = False,
      otherMembers = [(js ''fair_value_estimates'', js ''[478000]'')]\<rparr>"

section \<open>Category selection\<close>

lemma categoryTags_distinct: "distinct categoryTags"
  by (simp add: categoryTags_def js_def)

text \<open>
  Claim C8. The tags returned by \<open>getSelectedStrategies\<close> are exactly the tags of the
  five-tag vocabulary whose check box is ticked: every ticked category is returned
  (several at once when several are ticked), nothing outside the vocabulary is returned,
  a category that is not ticked never appears, and no tag is returned twice.
\<close>

theorem getSelectedStrategies_exact:
  "set (getSelectedStrategies d) = {t. t \<in> set categoryTags \<and> isChecked d t}
   \<and> distinct (getSelectedStrategies d)"
proof
  show "set (getSelectedStrategies d) = {t. t \<in> set categoryTags \<and> isChecked d t}"
    by (auto simp: getSelectedStrategies_def categoryTags_def Let_def)
  show "distinct (getSelectedStrategies d)"
    using categoryTags_distinct
    by (simp add: getSelectedStrategies_def categoryTags_def Let_def)
qed

section \<open>Evaluation of the samples\<close>

lemmas fixture_defs = demoState_def demoForm_def field_def ticked_def blank_def

lemmas form_defs = getSearchFormData_def getSelectedStrategies_def getElementById_def
  valueOf_def isChecked_def Let_def js_def

lemmas number_defs = parseInt_def parseUnsigned_def parseDigits_def digitsValue_def
  isDigitOf_def digitValue_def trimStart_def isWhiteSpace_def orZero_def orNull_def

section \<open>Submitting a search\<close>

lemma getSelectedStrategies_set:
  "set (getSelectedStrategies d) = {t. t \<in> set categoryTags \<and> isChecked d t}"
  by (auto simp: getSelectedStrategies_def categoryTags_def Let_def)

lemma updateById_ids:
  "(\<And>e. elId (f e) = elId e) \<Longrightarrow> map elId (updateById i f d) = map elId d"
  by (induction d) auto

lemma getElementById_None_iff:
  "getElementById d i = None \<longleftrightarrow> i = [] \<or> i \<notin> set (map elId d)"
  by (auto simp: getElementById_def find_None_iff)

lemma widget_showLoading:
  "getElementById (doc (showLoadingState st)) i = None \<longleftrightarrow> getElementById (doc st) i = None"
  by (simp add: getElementById_None_iff showLoadingState_def updateById_ids)

lemma validateSearchData_fst:
  "fst (validateSearchData data st) \<longleftrightarrow>
     location data \<noteq> [] \<and> trim (location data) \<noteq> [] \<and> propertyTypes data \<noteq> []"
  by (simp add: validateSearchData_def)

lemma startChatbot_requests:
  "requests (snd (startChatbotWithFormData net sd st)) =
     (if getElementById (doc st) (js ''chatbot-widget'') = None then requests st
      else requests st @ [frontendData sd])"
  by (simp add: startChatbotWithFormData_def Let_def alert_def split: fetch_outcome.splits)

lemma handleSearch_requests:
  "requests (handleSearch net st) =
     (if fst (validateSearchData (getSearchFormData (doc st)) st)
         \<and> getElementById (doc st) (js ''chatbot-widget'') \<noteq> None
      then requests st @ [frontendData (getSearchFormData (doc st))]
      else requests st)"
proof (cases "fst (validateSearchData (getSearchFormData (doc st)) st)")
  case False
  then show ?thesis
    by (auto simp: handleSearch_def Let_def validateSearchData_def alert_def split: if_splits)
next
  case True
  then have v: "validateSearchData (getSearchFormData (doc st)) st = (True, st)"
    by (simp add: validateSearchData_def split: if_splits)
  have r: "requests (showLoadingState st) = requests st"
    by (simp add: showLoadingState_def)
  obtain e s3 where sc:
    "startChatbotWithFormData net (getSearchFormData (doc st)) (showLoadingState st) = (e, s3)"
    by (cases "startChatbotWithFormData net (getSearchFormData (doc st)) (showLoadingState st)")
  have "requests s3 =
      (if getElementById (doc st) (js ''chatbot-widget'') = None then requests st
       else requests st @ [frontendData (getSearchFormData (doc st))])"
    using startChatbot_requests [of net "getSearchFormData (doc st)" "showLoadingState st"] sc r
    by (simp add: widget_showLoading)
  then show ?thesis
    using True v sc
    by (cases e)
      (simp_all add: handleSearch_def Let_def hideLoadingState_def showSearchError_def alert_def)
qed

lemma handleSearch_rejected:
  "\<not> fst (validateSearchData (getSearchFormData (doc st)) st) \<Longrightarrow>
     handleSearch net st = snd (validateSearchData (getSearchFormData (doc st)) st)"
  by (auto simp: handleSearch_def Let_def validateSearchData_def split: if_splits)

lemma trim_Nil: "trim [] = []"
  by (simp add: trim_def)

text \<open>
  Claim C5. A search sends its request only when the location is not empty (indeed not
  blank) and at least one category box is ticked; the categories sent are exactly the
  ticked ones, so none is assumed by default. With a blank location, or with a location
  and no ticked category, the only effect of the submission is one alert with the
  clarifying message: no request is sent and nothing else changes.
\<close>

theorem handleSearch_requires_location_and_category:
  "(requests (handleSearch net st) \<noteq> requests st \<longrightarrow>
      location (getSearchFormData (doc st)) \<noteq> []
      \<and> trim (location (getSearchFormData (doc st))) \<noteq> []
      \<and> propertyTypes (getSearchFormData (doc st)) \<noteq> []
      \<and> set (propertyTypes (getSearchFormData (doc st)))
          = {t. t \<in> set categoryTags \<and> isChecked (doc st) t}
      \<and> requests (handleSearch net st)
          = requests st @ [frontendData (getSearchFormData (doc st))])
   \<and> (trim (location (getSearchFormData (doc st))) = [] \<longrightarrow>
        handleSearch net st
          = st\<lparr>alerts := alerts st
               @ [js ''Please enter a location (city, state, ZIP code, or address)'']\<rparr>)
   \<and> (trim (location (getSearchFormData (doc st))) \<noteq> []
        \<and> propertyTypes (getSearchFormData (doc st)) = [] \<longrightarrow>
        handleSearch net st
          = st\<lparr>alerts := alerts st @ [js ''Please select at least one property type'']\<rparr>)"
proof (intro conjI impI)
  assume a: "requests (handleSearch net st) \<noteq> requests st"
  then have v: "fst (validateSearchData (getSearchFormData (doc st)) st)"
    and w: "getElementById (doc st) (js ''chatbot-widget'') \<noteq> None"
    by (auto simp: handleSearch_requests split: if_splits)
  from v show "location (getSearchFormData (doc st)) \<noteq> []"
    and "trim (location (getSearchFormData (doc st))) \<noteq> []"
    and "propertyTypes (getSearchFormData (doc st)) \<noteq> []"
    by (simp_all add: validateSearchData_fst)
  show "set (propertyTypes (getSearchFormData (doc st)))
          = {t. t \<in> set categoryTags \<and> isChecked (doc st) t}"
    using getSelectedStrategies_set [of "doc st"] by (simp add: getSearchFormData_def Let_def)
  from v w show "requests (handleSearch net st)
          = requests st @ [frontendData (getSearchFormData (doc st))]"
    by (simp add: handleSearch_requests)
next
  assume "trim (location (getSearchFormData (doc st))) = []"
  then show "handleSearch net st
          = st\<lparr>alerts := alerts st
               @ [js ''Please enter a location (city, state, ZIP code, or address)'']\<rparr>"
    by (simp add: handleSearch_rejected validateSearchData_fst)
       (simp add: validateSearchData_def alert_def)
next
  assume "trim (location (getSearchFormData (doc st))) \<noteq> []
        \<and> propertyTypes (getSearchFormData (doc st)) = []"
  then show "handleSearch net st
          = st\<lparr>alerts := alerts st @ [js ''Please select at least one property type'']\<rparr>"
    by (simp add: handleSearch_rejected validateSearchData_fst)
       (auto simp: validateSearchData_def alert_def trim_Nil)
qed

theorem handleSearch_requires_location_and_category_witness:
  "requests (handleSearch sampleNet searchReady) \<noteq> requests searchReady
   \<and> trim (location (getSearchFormData (doc searchReady))) \<noteq> []
   \<and> propertyTypes (getSearchFormData (doc searchReady)) \<noteq> []
   \<and> trim (location (getSearchFormData (doc searchNoLocation))) = []
   \<and> requests (handleSearch sampleNet searchNoLocation) = []
   \<and> alerts (handleSearch sampleNet searchNoLocation)
       = [js ''Please enter a location (city, state, ZIP code, or address)'']
   \<and> trim (location (getSearchFormData (doc searchNoCategory))) \<noteq> []
   \<and> propertyTypes (getSearchFormData (doc searchNoCategory)) = []
   \<and> requests (handleSearch sampleNet searchNoCategory) = []
   \<and> alerts (handleSearch sampleNet searchNoCategory)
       = [js ''Please select at least one property type'']"
proof -
  have h1: "requests (handleSearch sampleNet searchReady) \<noteq> requests searchReady"
    by (simp add: handleSearch_requests validateSearchData_fst searchReady_def fixture_defs
        form_defs trim_def isWhiteSpace_def)
  have h2: "trim (location (getSearchFormData (doc searchNoLocation))) = []"
    by (simp add: searchNoLocation_def fixture_defs form_defs trim_def isWhiteSpace_def)
  have h3: "trim (location (getSearchFormData (doc searchNoCategory))) \<noteq> []
            \<and> propertyTypes (getSearchFormData (doc searchNoCategory)) = []"
    by (simp add: searchNoCategory_def fixture_defs form_defs trim_def isWhiteSpace_def)
  have e2: "requests searchNoLocation = [] \<and> alerts searchNoLocation = []"
    by (simp add: searchNoLocation_def demoState_def)
  have e3: "requests searchNoCategory = [] \<and> alerts searchNoCategory = []"
    by (simp add: searchNoCategory_def demoState_def)
  note t1 = handleSearch_requires_location_and_category [of sampleNet searchReady]
  note t2 = handleSearch_requires_location_and_category [of sampleNet searchNoLocation]
  note t3 = handleSearch_requires_location_and_category [of sampleNet searchNoCategory]
  from t1 h1 have c1: "trim (location (getSearchFormData (doc searchReady))) \<noteq> []
      \<and> propertyTypes (getSearchFormData (doc searchReady)) \<noteq> []"
    by blast
  from t2 h2 have "handleSearch sampleNet searchNoLocation
      = searchNoLocation\<lparr>alerts := alerts searchNoLocation
          @ [js ''Please enter a location (city, state, ZIP code, or address)'']\<rparr>"
    by blast
  then have c2: "requests (handleSearch sampleNet searchNoLocation) = []
      \<and> alerts (handleSearch sampleNet searchNoLocation)
         = [js ''Please enter a location (city, state, ZIP code, or address)'']"
    using e2 by simp
  from t3 h3 have "handleSearch sampleNet searchNoCategory
      = searchNoCategory\<lparr>alerts := alerts searchNoCategory
          @ [js ''Please select at least one property type'']\<rparr>"
    by blast
  then have c3: "requests (handleSearch sampleNet searchNoCategory) = []
      \<and> alerts (handleSearch sampleNet searchNoCategory)
         = [js ''Please select at least one property type'']"
    using e3 by simp
  from h1 h2 h3 c1 c2 c3 show ?thesis by blast
qed

section \<open>Budget bounds in the request\<close>

lemma frontendData_budget_min:
  "budget_min (frontendData (getSearchFormData d)) =
     (case parseInt (valueOf d (if isChecked d (js ''custom-budget-toggle'')
                                then js ''custom-min-price'' else js ''min-price'')) of
        None \<Rightarrow> None
      | Some n \<Rightarrow> if n = 0 then None else Some n)"
  by (cases "getElementById d (js ''custom-budget-toggle'')")
     (simp_all add: frontendData_def getSearchFormData_def isChecked_def Let_def orNull_def
        orZero_def split: option.splits)

lemma frontendData_budget_max:
  "budget_max (frontendData (getSearchFormData d)) =
     (case parseInt (valueOf d (if isChecked d (js ''custom-budget-toggle'')
                                then js ''custom-max-price'' else js ''max-price'')) of
        None \<Rightarrow> None
      | Some n \<Rightarrow> if n = 0 then None else Some n)"
  by (cases "getElementById d (js ''custom-budget-toggle'')")
     (simp_all add: frontendData_def getSearchFormData_def isChecked_def Let_def orNull_def
        orZero_def split: option.splits)

text \<open>
  Claim C4, as the code has it. A bound that is absent from the form or does not parse
  as a number is sent as \<^verbatim>\<open>null\<close>, never as zero, and a parsed bound other than zero is
  sent unchanged. A supplied zero is sent as \<^verbatim>\<open>null\<close> too: the script reads zero as
  "no bound", so no request ever carries a zero bound.
\<close>

theorem frontendData_bounds:
  "budget_min (frontendData (getSearchFormData d)) =
     (case parseInt (valueOf d (if isChecked d (js ''custom-budget-toggle'')
                                then js ''custom-min-price'' else js ''min-price'')) of
        None \<Rightarrow> None
      | Some n \<Rightarrow> if n = 0 then None else Some n)
   \<and> budget_max (frontendData (getSearchFormData d)) =
     (case parseInt (valueOf d (if isChecked d (js ''custom-budget-toggle'')
                                then js ''custom-max-price'' else js ''max-price'')) of
        None \<Rightarrow> None
      | Some n \<Rightarrow> if n = 0 then None else Some n)
   \<and> budget_min (frontendData (getSearchFormData d)) \<noteq> Some 0
   \<and> budget_max (frontendData (getSearchFormData d)) \<noteq> Some 0"
proof (intro conjI)
  show "budget_min (frontendData (getSearchFormData d)) \<noteq> Some 0"
    by (simp add: frontendData_budget_min split: option.splits)
  show "budget_max (frontendData (getSearchFormData d)) \<noteq> Some 0"
    by (simp add: frontendData_budget_max split: option.splits)
qed (rule frontendData_budget_min frontendData_budget_max)+

text \<open>
  The claim as the specification states it fails: with \<^verbatim>\<open>0\<close> selected as the minimum
  price, the parsed bound is zero and the request carries \<^verbatim>\<open>null\<close>, exactly as for a
  form whose minimum is left empty.
\<close>

theorem frontendData_zero_bound_counterexample:
  "parseInt (valueOf zeroMinForm (js ''min-price'')) = Some 0
   \<and> budget_min (frontendData (getSearchFormData zeroMinForm)) = None
   \<and> parseInt (valueOf noMinForm (js ''min-price'')) = None
   \<and> budget_min (frontendData (getSearchFormData noMinForm)) = None
   \<and> requests (handleSearch sampleNet (demoState zeroMinForm))
       = [\<lparr>fd_location = js ''Austin, TX'', property_types = [js ''fix-flip''],
           budget_min = None, budget_max = Some 200000\<rparr>]"
proof (intro conjI)
  show "parseInt (valueOf zeroMinForm (js ''min-price'')) = Some 0"
    by (simp add: zeroMinForm_def fixture_defs form_defs number_defs)
  show "budget_min (frontendData (getSearchFormData zeroMinForm)) = None"
    by (simp add: frontendData_def zeroMinForm_def fixture_defs form_defs number_defs)
  show "parseInt (valueOf noMinForm (js ''min-price'')) = None"
    by (simp add: noMinForm_def fixture_defs form_defs number_defs)
  show "budget_min (frontendData (getSearchFormData noMinForm)) = None"
    by (simp add: frontendData_def noMinForm_def fixture_defs form_defs number_defs)
  show "requests (handleSearch sampleNet (demoState zeroMinForm))
       = [\<lparr>fd_location = js ''Austin, TX'', property_types = [js ''fix-flip''],
           budget_min = None, budget_max = Some 200000\<rparr>]"
    by (simp add: handleSearch_requests validateSearchData_fst frontendData_def zeroMinForm_def
        fixture_defs form_defs number_defs trim_def)
qed

section \<open>The order of the budget bounds\<close>

text \<open>
  The listener of the budget fields, on a page that has it, answers \<^verbatim>\<open>false\<close> exactly
  when both bounds are positive and the minimum is not below the maximum. \<open>handleSearch\<close>
  does not call it.
\<close>

lemma validateBudgetRange_verdict:
  "validateBudgetRange d = Some ok \<Longrightarrow>
     ok \<longleftrightarrow> \<not> (0 < minPrice (budget (getSearchFormData d))
                \<and> 0 < maxPrice (budget (getSearchFormData d))
                \<and> maxPrice (budget (getSearchFormData d))
                    \<le> minPrice (budget (getSearchFormData d)))"
  by (auto simp: validateBudgetRange_def getSearchFormData_def Let_def
      split: option.splits if_splits)

lemma validateBudgetRange_samples:
  "validateBudgetRange invertedBudgetForm = Some False
   \<and> validateBudgetRange equalBudgetForm = Some False
   \<and> validateBudgetRange zeroMinForm = None"
  by (simp add: validateBudgetRange_def invertedBudgetForm_def equalBudgetForm_def
      zeroMinForm_def fixture_defs form_defs number_defs)




section \<open>Lookups after updates\<close>

lemma js_eq_iff [simp]: "js a = js b \<longleftrightarrow> a = b"
  by (simp add: js_def inj_map_eq_map [OF inj_of_char])

lemma js_Nil_iff [simp]: "js a = [] \<longleftrightarrow> a = []" "[] = js a \<longleftrightarrow> a = []"
  by (auto simp: js_def)

lemma getElementById_updateById:
  "(\<And>e. elId (f e) = elId e) \<Longrightarrow>
     getElementById (updateById i f d) j =
       (if i = j then map_option f (getElementById d j) else getElementById d j)"
  by (induction d) (auto simp: getElementById_def)

lemma in_updateById:
  "e \<in> set (updateById i f d) \<Longrightarrow> e \<in> set d \<or> (\<exists>e0 \<in> set d. elId e0 = i \<and> e = f e0)"
  by (induction d) (auto split: if_splits)

lemma hidePages_ids: "map elId (hidePages d) = map elId d"
  by (simp add: hidePages_def)

lemma getElementById_hidePages:
  "getElementById (hidePages d) j =
     map_option (\<lambda>page. if js ''page'' \<in> set (className page) then page\<lparr>display := js ''none''\<rparr>
                         else page) (getElementById d j)"
  by (induction d) (auto simp: getElementById_def hidePages_def)

lemma hidePages_hidden:
  "e \<in> set (hidePages d) \<Longrightarrow> js ''page'' \<in> set (className e) \<Longrightarrow> display e = js ''none''"
  by (auto simp: hidePages_def split: if_splits)

lemma renderProperties_elem:
  assumes "e \<in> set (renderProperties d)"
  shows "\<exists>e0 \<in> set d. elId e = elId e0 \<and> className e = className e0 \<and> display e = display e0"
proof (cases "getElementById d (js ''properties-grid'')")
  case None
  then show ?thesis using assms by (auto simp: renderProperties_def)
next
  case (Some c)
  with assms have "e \<in> set d \<or> (\<exists>e0 \<in> set d. elId e0 = js ''properties-grid''
      \<and> e = e0\<lparr>content := PropertyCards (map propertyCard PROPERTIES)\<rparr>)"
    by (auto simp: renderProperties_def dest!: in_updateById)
  then show ?thesis
  proof
    assume "e \<in> set d"
    then show ?thesis by blast
  next
    assume "\<exists>e0 \<in> set d. elId e0 = js ''properties-grid''
      \<and> e = e0\<lparr>content := PropertyCards (map propertyCard PROPERTIES)\<rparr>"
    then obtain e0 where "e0 \<in> set d"
      and "e = e0\<lparr>content := PropertyCards (map propertyCard PROPERTIES)\<rparr>"
      by blast
    then show ?thesis by (intro bexI [of _ e0]) simp_all
  qed
qed

lemma getElementById_renderProperties_display:
  "map_option display (getElementById (renderProperties d) j) = map_option display (getElementById d j)"
  by (auto simp: renderProperties_def getElementById_updateById option.map_comp comp_def
      split: option.splits)

lemma targetPageId_cases:
  "targetPageId pageId =
     (case map_of pages pageId of Some v \<Rightarrow> v | None \<Rightarrow> js ''home-page'')"
  by (simp add: targetPageId_def pages_def)

lemma showPage_missing:
  "getElementById (doc a) (targetPageId pageId) = None \<Longrightarrow>
     showPage pageId a = a\<lparr>doc := hidePages (doc a)\<rparr>"
  by (simp add: showPage_def Let_def getElementById_hidePages)

lemma showPage_present:
  assumes "getElementById (doc a) (targetPageId pageId) \<noteq> None"
  shows "currentPage (showPage pageId a) = pageId"
    and "selectedProperty (showPage pageId a) = selectedProperty a"
    and "doc (showPage pageId a) =
         (if pageId = js ''marketplace''
          then renderProperties (updateById (targetPageId pageId)
                 (\<lambda>e. e\<lparr>display := js ''block''\<rparr>) (hidePages (doc a)))
          else updateById (targetPageId pageId)
                 (\<lambda>e. e\<lparr>display := js ''block''\<rparr>) (hidePages (doc a)))"
proof -
  from assms obtain e' where
    e': "getElementById (hidePages (doc a)) (targetPageId pageId) = Some e'"
    by (auto simp: getElementById_hidePages)
  show "currentPage (showPage pageId a) = pageId"
    using e' by (simp add: showPage_def Let_def)
  show "selectedProperty (showPage pageId a) = selectedProperty a"
    using e' by (simp add: showPage_def Let_def)
  show "doc (showPage pageId a) =
         (if pageId = js ''marketplace''
          then renderProperties (updateById (targetPageId pageId)
                 (\<lambda>e. e\<lparr>display := js ''block''\<rparr>) (hidePages (doc a)))
          else updateById (targetPageId pageId)
                 (\<lambda>e. e\<lparr>display := js ''block''\<rparr>) (hidePages (doc a)))"
    unfolding showPage_def Let_def e' by simp
qed

lemma showPage_present_display:
  assumes "getElementById (doc a) (targetPageId pageId) \<noteq> None"
  shows "map_option display (getElementById (doc (showPage pageId a)) (targetPageId pageId))
         = Some (js ''block'')"
proof -
  from assms obtain e' where
    e': "getElementById (hidePages (doc a)) (targetPageId pageId) = Some e'"
    by (auto simp: getElementById_hidePages)
  let ?d2 = "updateById (targetPageId pageId)
          (\<lambda>e. e\<lparr>display := js ''block''\<rparr>) (hidePages (doc a))"
  have h: "map_option display (getElementById ?d2 (targetPageId pageId)) = Some (js ''block'')"
    using e' by (simp add: getElementById_updateById)
  show ?thesis
  proof (cases "pageId = js ''marketplace''")
    case True
    then have "doc (showPage pageId a) = renderProperties ?d2"
      using showPage_present(3) [OF assms] by simp
    then show ?thesis
      using h by (simp only: getElementById_renderProperties_display)
  next
    case False
    then have "doc (showPage pageId a) = ?d2"
      using showPage_present(3) [OF assms] by simp
    then show ?thesis
      using h by (simp only:)
  qed
qed

lemma showPage_others_hidden:
  assumes "e \<in> set (doc (showPage pageId a))" and "js ''page'' \<in> set (className e)"
    and "elId e \<noteq> targetPageId pageId"
  shows "display e = js ''none''"
proof (cases "getElementById (doc a) (targetPageId pageId)")
  case None
  then show ?thesis
    using assms by (auto simp: showPage_missing dest: hidePages_hidden)
next
  case (Some t)
  then obtain e' where e': "getElementById (hidePages (doc a)) (targetPageId pageId) = Some e'"
    by (auto simp: getElementById_hidePages)
  let ?d2 = "updateById (targetPageId pageId) (\<lambda>e. e\<lparr>display := js ''block''\<rparr>) (hidePages (doc a))"
  have d2: "\<And>x. x \<in> set ?d2 \<Longrightarrow> js ''page'' \<in> set (className x) \<Longrightarrow>
      elId x \<noteq> targetPageId pageId \<Longrightarrow> display x = js ''none''"
    by (auto dest!: in_updateById dest: hidePages_hidden)
  have "getElementById (doc a) (targetPageId pageId) \<noteq> None"
    using Some by simp
  from showPage_present(3) [OF this] assms(1)
  have "e \<in> set ?d2 \<or> e \<in> set (renderProperties ?d2)"
    by (auto split: if_splits)
  then show ?thesis
  proof
    assume "e \<in> set ?d2"
    then show ?thesis using d2 assms by blast
  next
    assume "e \<in> set (renderProperties ?d2)"
    then obtain e0 where "e0 \<in> set ?d2" "elId e = elId e0" "className e = className e0"
      "display e = display e0"
      using renderProperties_elem by blast
    then show ?thesis using d2 [of e0] assms by simp
  qed
qed

section \<open>Showing a page\<close>

text \<open>
  Claim C9, as the code has it. For a page identifier that is not a property name
  inherited from \<^verbatim>\<open>Object.prototype\<close>, \<open>showPage\<close> hides every element of class
  \<^verbatim>\<open>page\<close> other than its target, the element whose id the table \<open>pages\<close> gives for the
  identifier, the home page's id when the identifier has no entry. When the document has
  that element, it is displayed and \<open>currentPage\<close> becomes the requested identifier,
  also one without entry. When the document lacks it, the pages are hidden, none is
  displayed, and \<open>currentPage\<close> and the rest of the state keep their values.
\<close>

theorem showPage_displays_target:
  assumes "pageId \<notin> set inheritedNames"
  shows "(\<forall>e \<in> set (doc (showPage pageId a)).
            js ''page'' \<in> set (className e) \<and> elId e \<noteq> targetPageId pageId
            \<longrightarrow> display e = js ''none'')
    \<and> (getElementById (doc a) (targetPageId pageId) \<noteq> None \<longrightarrow>
          map_option display (getElementById (doc (showPage pageId a)) (targetPageId pageId))
            = Some (js ''block'')
          \<and> currentPage (showPage pageId a) = pageId)
    \<and> (getElementById (doc a) (targetPageId pageId) = None \<longrightarrow>
          showPage pageId a = a\<lparr>doc := hidePages (doc a)\<rparr>
          \<and> currentPage (showPage pageId a) = currentPage a
          \<and> (\<forall>e \<in> set (doc (showPage pageId a)).
                js ''page'' \<in> set (className e) \<longrightarrow> display e = js ''none''))
    \<and> (map_of pages pageId = None \<longrightarrow> targetPageId pageId = js ''home-page'')
    \<and> (\<forall>v. map_of pages pageId = Some v \<longrightarrow> targetPageId pageId = v)"
proof (intro conjI impI ballI allI)
  fix e
  assume "e \<in> set (doc (showPage pageId a))"
    and "js ''page'' \<in> set (className e) \<and> elId e \<noteq> targetPageId pageId"
  then show "display e = js ''none''"
    using showPage_others_hidden by blast
next
  assume p: "getElementById (doc a) (targetPageId pageId) \<noteq> None"
  show "map_option display (getElementById (doc (showPage pageId a)) (targetPageId pageId))
            = Some (js ''block'')"
    by (rule showPage_present_display [OF p])
  show "currentPage (showPage pageId a) = pageId"
    by (rule showPage_present(1) [OF p])
next
  assume m: "getElementById (doc a) (targetPageId pageId) = None"
  show "showPage pageId a = a\<lparr>doc := hidePages (doc a)\<rparr>"
    by (rule showPage_missing [OF m])
  then show "currentPage (showPage pageId a) = currentPage a"
    by simp
  fix e
  assume "e \<in> set (doc (showPage pageId a))" and "js ''page'' \<in> set (className e)"
  then show "display e = js ''none''"
    using showPage_missing [OF m] by (auto dest: hidePages_hidden)
next
  assume "map_of pages pageId = None"
  then show "targetPageId pageId = js ''home-page''"
    by (simp add: targetPageId_cases)
next
  fix v
  assume "map_of pages pageId = Some v"
  then show "targetPageId pageId = v"
    by (simp add: targetPageId_cases)
qed

lemmas site_defs = siteState_def sitePages_def pageEl_def demoState_def blank_def

lemma showPage_settings_eval:
  "js ''settings'' \<notin> set inheritedNames"
  "map_of pages (js ''settings'') = None"
  "getElementById (doc siteState) (targetPageId (js ''settings'')) \<noteq> None"
  by (simp_all add: inheritedNames_def pages_def targetPageId_cases site_defs getElementById_def)

lemma showPage_pricing_eval:
  "js ''pricing'' \<notin> set inheritedNames"
  "map_of pages (js ''pricing'') = Some (js ''pricing-page'')"
  "getElementById (doc siteState) (targetPageId (js ''pricing'')) = None"
  by (simp_all add: inheritedNames_def pages_def targetPageId_cases site_defs getElementById_def)

lemma settings_doc:
  "doc (showPage (js ''settings'') siteState) =
     [pageEl (js ''home-page'') (js ''block''),
      pageEl (js ''demo-page'') (js ''none''),
      pageEl (js ''marketplace-page'') (js ''none''),
      blank (js ''properties-grid''),
      pageEl (js ''property-details-page'') (js ''none''),
      blank (js ''property-savings'')]"
  unfolding showPage_present(3) [OF showPage_settings_eval(3)]
  by (simp add: targetPageId_cases pages_def site_defs hidePages_def)

lemma demo_hidden:
  "pageEl (js ''demo-page'') (js ''none'') \<in> set (doc (showPage (js ''settings'') siteState))"
  "js ''page'' \<in> set (className (pageEl (js ''demo-page'') (js ''none'')))"
  "elId (pageEl (js ''demo-page'') (js ''none'')) \<noteq> targetPageId (js ''settings'')"
  unfolding settings_doc
  by (simp_all add: targetPageId_cases pages_def pageEl_def blank_def)

theorem showPage_displays_target_witness:
  "js ''settings'' \<notin> set inheritedNames
   \<and> map_of pages (js ''settings'') = None
   \<and> targetPageId (js ''settings'') = js ''home-page''
   \<and> getElementById (doc siteState) (js ''home-page'') \<noteq> None
   \<and> map_option display (getElementById (doc (showPage (js ''settings'') siteState))
        (js ''home-page'')) = Some (js ''block'')
   \<and> currentPage (showPage (js ''settings'') siteState) = js ''settings''
   \<and> pageEl (js ''demo-page'') (js ''none'') \<in> set (doc (showPage (js ''settings'') siteState))
   \<and> display (pageEl (js ''demo-page'') (js ''none'')) = js ''none''
   \<and> js ''pricing'' \<notin> set inheritedNames
   \<and> targetPageId (js ''pricing'') = js ''pricing-page''
   \<and> getElementById (doc siteState) (js ''pricing-page'') = None
   \<and> currentPage (showPage (js ''pricing'') siteState) = currentPage siteState"
proof -
  note s = showPage_displays_target [OF showPage_settings_eval(1), of siteState]
  note p = showPage_displays_target [OF showPage_pricing_eval(1), of siteState]
  from s showPage_settings_eval have s1: "targetPageId (js ''settings'') = js ''home-page''"
    by blast
  from s showPage_settings_eval have s2:
    "map_option display (getElementById (doc (showPage (js ''settings'') siteState))
        (targetPageId (js ''settings''))) = Some (js ''block'')
     \<and> currentPage (showPage (js ''settings'') siteState) = js ''settings''"
    by blast
  from s demo_hidden have s3: "display (pageEl (js ''demo-page'') (js ''none'')) = js ''none''"
    by blast
  from p showPage_pricing_eval have p1: "targetPageId (js ''pricing'') = js ''pricing-page''"
    by blast
  from p showPage_pricing_eval have p2:
    "currentPage (showPage (js ''pricing'') siteState) = currentPage siteState"
    by blast
  from showPage_settings_eval showPage_pricing_eval demo_hidden(1) s1 s2 s3 p1 p2 show ?thesis
    by simp
qed

text \<open>
  The claim as the specification states it fails: on a site that has no pricing page,
  \<^verbatim>\<open>showPage('pricing')\<close> hides every page, displays none, and leaves \<open>currentPage\<close> at
  \<^verbatim>\<open>'home'\<close> instead of setting it to the requested identifier.
\<close>

theorem showPage_missing_page_counterexample:
  "currentPage siteState = js ''home''
   \<and> currentPage (showPage (js ''pricing'') siteState) = js ''home''
   \<and> map display (doc (showPage (js ''pricing'') siteState))
       = [js ''none'', js ''none'', js ''none'', [], js ''none'', []]"
  by (simp add: showPage_missing showPage_pricing_eval(3))
     (simp add: site_defs hidePages_def)

section \<open>Property details\<close>

lemma lookup_display_kept:
  assumes "\<And>e. elId (f e) = elId e \<and> display (f e) = display e"
  shows "map_option display (getElementById (updateById i f d) j)
           = map_option display (getElementById d j)"
  using assms by (simp add: getElementById_updateById option.map_comp comp_def)

lemma lookup_display_other:
  assumes "\<And>e. elId (f e) = elId e" and "i \<noteq> j"
  shows "map_option display (getElementById (updateById i f d) j)
           = map_option display (getElementById d j)"
  using assms by (simp add: getElementById_updateById)

lemma getElementById_renderPropertyDetails_display:
  assumes "j \<noteq> js ''photo-strip''"
  shows "map_option display (getElementById (renderPropertyDetails p d) j)
       = map_option display (getElementById d j)"
proof -
  have n: "js ''photo-strip'' \<noteq> j"
    using assms by blast
  have "map_option display (getElementById (renderPropertyDetails p d) j)
       = map_option display (getElementById
           (updateById (js ''property-facts'')
             (\<lambda>e. e\<lparr>content := FactsGrid (factsGrid p)\<rparr>)
           (updateById (js ''property-savings'')
             (\<lambda>e. if estValue p - listPrice p > 0
                  then e\<lparr>content := TextContent (js ''You save ''
                           @ formatMoney (estValue p - listPrice p)),
                         className := [js ''savings-pill'', js ''positive'']\<rparr>
                  else if estValue p - listPrice p < 0
                  then e\<lparr>content := TextContent (formatMoney (estValue p - listPrice p)),
                         className := [js ''savings-pill'', js ''negative'']\<rparr>
                  else e\<lparr>content := TextContent (js ''Fair value''),
                         className := [js ''savings-pill'', js ''neutral'']\<rparr>)
           (updateById (js ''property-est-value'')
             (\<lambda>e. e\<lparr>content := TextContent (formatMoney (estValue p))\<rparr>)
           (updateById (js ''property-list-price'')
             (\<lambda>e. e\<lparr>content := TextContent (formatMoney (listPrice p))\<rparr>)
           (updateById (js ''property-address'')
             (\<lambda>e. e\<lparr>content := TextContent
                     (address1 p @ js '', '' @ city p @ js '', ''
                      @ state p @ js '' '' @ zipCode p)\<rparr>)
           (updateById (js ''property-hero-image'')
             (\<lambda>e. e\<lparr>src := photo p, alt := address1 p @ js '', '' @ city p\<rparr>) d)))))) j)"
    unfolding renderPropertyDetails_def Let_def
    by (rule lookup_display_other [OF _ n]) simp
  also have "\<dots> = map_option display (getElementById d j)"
    by (simp add: lookup_display_kept)
  finally show ?thesis .
qed

lemma find_distinct_key:
  "distinct (map f xs) \<Longrightarrow> x \<in> set xs \<Longrightarrow> find (\<lambda>q. f q = f x) xs = Some x"
  by (induction xs) (auto simp: image_iff)

lemma PROPERTIES_ids: "map propId PROPERTIES = [js ''p_001'', js ''p_002'', js ''p_003'']"
  by (simp add: PROPERTIES_def)

lemma find_PROPERTIES:
  "p \<in> set PROPERTIES \<Longrightarrow> find (\<lambda>q. propId q = propId p) PROPERTIES = Some p"
  by (rule find_distinct_key) (simp_all add: PROPERTIES_ids)

lemma find_PROPERTIES_None:
  "propertyId \<notin> propId ` set PROPERTIES \<Longrightarrow> find (\<lambda>q. propId q = propertyId) PROPERTIES = None"
  by (auto simp: find_None_iff)

lemma showPage_selectedProperty:
  "selectedProperty (showPage pageId a) = selectedProperty a"
  by (cases "getElementById (doc a) (targetPageId pageId)")
     (simp_all add: showPage_missing showPage_present(2))

lemma showPropertyDetails_found:
  assumes "p \<in> set PROPERTIES"
  shows "showPropertyDetails (propId p) a =
     (showPage (js ''property-details'') (a\<lparr>selectedProperty := Some p\<rparr>))
       \<lparr>doc := renderPropertyDetails p
          (doc (showPage (js ''property-details'') (a\<lparr>selectedProperty := Some p\<rparr>)))\<rparr>"
  by (simp add: showPropertyDetails_def find_PROPERTIES [OF assms] Let_def)

text \<open>
  Claim C10. For an identifier that no listing of \<open>PROPERTIES\<close> has,
  \<open>showPropertyDetails\<close> returns the state as it was: \<open>selectedProperty\<close>, the pages
  and every element are unchanged. For the identifier of a listing it sets
  \<open>selectedProperty\<close> to that listing, calls \<open>showPage\<close> for the details page, which
  is displayed and made current when the document has it, and renders the listing. So a
  change of the state happens only for an identifier of the list.
\<close>

theorem showPropertyDetails_frame:
  "(propertyId \<notin> propId ` set PROPERTIES \<longrightarrow> showPropertyDetails propertyId a = a)
   \<and> (\<forall>p \<in> set PROPERTIES. propId p = propertyId \<longrightarrow>
         showPropertyDetails propertyId a =
           (showPage (js ''property-details'') (a\<lparr>selectedProperty := Some p\<rparr>))
             \<lparr>doc := renderPropertyDetails p
                (doc (showPage (js ''property-details'') (a\<lparr>selectedProperty := Some p\<rparr>)))\<rparr>
         \<and> selectedProperty (showPropertyDetails propertyId a) = Some p
         \<and> (getElementById (doc a) (js ''property-details-page'') \<noteq> None \<longrightarrow>
              currentPage (showPropertyDetails propertyId a) = js ''property-details''
              \<and> map_option display
                   (getElementById (doc (showPropertyDetails propertyId a))
                      (js ''property-details-page'')) = Some (js ''block'')))
   \<and> (showPropertyDetails propertyId a \<noteq> a \<longrightarrow> propertyId \<in> propId ` set PROPERTIES)"
proof (intro conjI impI ballI)
  assume "propertyId \<notin> propId ` set PROPERTIES"
  then show "showPropertyDetails propertyId a = a"
    by (simp add: showPropertyDetails_def find_PROPERTIES_None)
next
  assume "showPropertyDetails propertyId a \<noteq> a"
  then show "propertyId \<in> propId ` set PROPERTIES"
    by (rule contrapos_np) (simp add: showPropertyDetails_def find_PROPERTIES_None)
next
  fix p
  assume p: "p \<in> set PROPERTIES" and i: "propId p = propertyId"
  let ?a1 = "a\<lparr>selectedProperty := Some p\<rparr>"
  have eq: "showPropertyDetails propertyId a =
      (showPage (js ''property-details'') ?a1)
        \<lparr>doc := renderPropertyDetails p (doc (showPage (js ''property-details'') ?a1))\<rparr>"
    using showPropertyDetails_found [OF p] i by simp
  show "showPropertyDetails propertyId a =
      (showPage (js ''property-details'') ?a1)
        \<lparr>doc := renderPropertyDetails p (doc (showPage (js ''property-details'') ?a1))\<rparr>"
    by (rule eq)
  show "selectedProperty (showPropertyDetails propertyId a) = Some p"
    by (simp add: eq showPage_selectedProperty)
  assume e: "getElementById (doc a) (js ''property-details-page'') \<noteq> None"
  have t: "targetPageId (js ''property-details'') = js ''property-details-page''"
    by (simp add: targetPageId_cases pages_def)
  from e t have e1: "getElementById (doc ?a1) (targetPageId (js ''property-details'')) \<noteq> None"
    by simp
  show "currentPage (showPropertyDetails propertyId a) = js ''property-details''"
    by (simp add: eq showPage_present(1) [OF e1])
  show "map_option display
          (getElementById (doc (showPropertyDetails propertyId a))
             (js ''property-details-page'')) = Some (js ''block'')"
    using showPage_present_display [OF e1]
    by (simp add: eq t getElementById_renderPropertyDetails_display)
qed

lemma showPropertyDetails_eval:
  "js ''p_404'' \<notin> propId ` set PROPERTIES"
  "PROPERTIES ! 1 \<in> set PROPERTIES"
  "propId (PROPERTIES ! 1) = js ''p_002''"
  "getElementById (doc siteState) (js ''property-details-page'') \<noteq> None"
  using PROPERTIES_ids
  by (simp_all add: PROPERTIES_def site_defs getElementById_def)

theorem showPropertyDetails_frame_witness:
  "js ''p_404'' \<notin> propId ` set PROPERTIES
   \<and> showPropertyDetails (js ''p_404'') siteState = siteState
   \<and> PROPERTIES ! 1 \<in> set PROPERTIES
   \<and> propId (PROPERTIES ! 1) = js ''p_002''
   \<and> selectedProperty (showPropertyDetails (js ''p_002'') siteState) = Some (PROPERTIES ! 1)
   \<and> getElementById (doc siteState) (js ''property-details-page'') \<noteq> None
   \<and> currentPage (showPropertyDetails (js ''p_002'') siteState) = js ''property-details''
   \<and> showPropertyDetails (js ''p_002'') siteState \<noteq> siteState
   \<and> js ''p_002'' \<in> propId ` set PROPERTIES"
proof -
  note n = showPropertyDetails_frame [of "js ''p_404''" siteState]
  note f = showPropertyDetails_frame [of "js ''p_002''" siteState]
  from n showPropertyDetails_eval(1) have c1: "showPropertyDetails (js ''p_404'') siteState = siteState"
    by blast
  from f showPropertyDetails_eval have c2:
    "selectedProperty (showPropertyDetails (js ''p_002'') siteState) = Some (PROPERTIES ! 1)
     \<and> currentPage (showPropertyDetails (js ''p_002'') siteState) = js ''property-details''"
    by blast
  have "currentPage siteState = js ''home''"
    by (simp add: site_defs)
  with c2 have c3: "showPropertyDetails (js ''p_002'') siteState \<noteq> siteState"
    by auto
  with f have c4: "js ''p_002'' \<in> propId ` set PROPERTIES"
    by blast
  from showPropertyDetails_eval c1 c2 c3 c4 show ?thesis
    by simp
qed

section \<open>The savings call-out\<close>

lemma formatMoney_negative: "s < 0 \<Longrightarrow> formatMoney s = js ''-$'' @ grouped (nat (- s))"
  by (simp add: formatMoney_def)

lemma formatMoney_zero: "formatMoney 0 = js ''$0''"
  by (simp add: formatMoney_def grouped.simps [of 0] decimal.simps [of 0] js_def)

lemma formatMoney_samples:
  "formatMoney 485000 = js ''$485,000''"
  "formatMoney (- 1234567) = js ''-$1,234,567''"
  "formatMoney 999 = js ''$999''"
  by (simp_all add: formatMoney_def grouped.simps decimal.simps threeDigits_def js_def)

text \<open>The savings lines of the three sample listings.\<close>

lemma PROPERTIES_savings:
  "map (\<lambda>p. (cardSavingsClass (propertyCard p), cardSavingsText (propertyCard p))) PROPERTIES =
     [(js ''positive'', js ''You save $25,000''), (js ''positive'', js ''You save $20,000''),
      (js ''positive'', js ''You save $10,000'')]"
  by (simp add: PROPERTIES_def propertyCard_def savingsClass_def savingsText_def formatMoney_def
      grouped.simps decimal.simps threeDigits_def Let_def)
     (simp add: js_def)

lemma savingsClass_sign:
  "(savingsClass s = js ''positive'' \<longleftrightarrow> s > 0)
   \<and> (savingsClass s = js ''negative'' \<longleftrightarrow> s < 0)
   \<and> (savingsClass s = js ''neutral'' \<longleftrightarrow> s = 0)"
  by (auto simp: savingsClass_def)

lemma savingsText_sign:
  "(savingsText s = js ''You save '' @ formatMoney s \<longleftrightarrow> s > 0)
   \<and> (savingsText s = formatMoney s \<longleftrightarrow> s < 0)
   \<and> (savingsText s = js ''Fair value'' \<longleftrightarrow> s = 0)"
proof -
  have a: "js ''You save '' @ formatMoney s \<noteq> formatMoney s"
    by simp
  have b: "js ''You save '' @ formatMoney s \<noteq> js ''Fair value''"
    by (simp add: js_def)
  have c: "s < 0 \<Longrightarrow> formatMoney s \<noteq> js ''Fair value''"
    by (simp add: formatMoney_negative js_def)
  have d: "js ''Fair value'' \<noteq> formatMoney 0"
    by (simp add: formatMoney_zero)
  show ?thesis
    using a b c d by (auto simp: savingsText_def)
qed

lemma renderPropertyDetails_savings:
  "map_option (\<lambda>e. (className e, content e))
     (getElementById (renderPropertyDetails p d) (js ''property-savings''))
   = map_option (\<lambda>e. ([js ''savings-pill'', savingsClass (estValue p - listPrice p)],
                        TextContent (savingsText (estValue p - listPrice p))))
       (getElementById d (js ''property-savings''))"
  by (simp add: renderPropertyDetails_def Let_def getElementById_updateById option.map_comp
      comp_def savingsClass_def savingsText_def)

lemma renderProperties_cards:
  "map_option content (getElementById (renderProperties d) (js ''properties-grid''))
   = map_option (\<lambda>e. PropertyCards (map propertyCard PROPERTIES))
       (getElementById d (js ''properties-grid''))"
  by (simp add: renderProperties_def getElementById_updateById option.map_comp comp_def
      split: option.splits)

text \<open>
  Claim C2. The savings line of a listing is chosen from the raw difference
  \<open>estValue - listPrice\<close> alone, with no tolerance: the class is \<^verbatim>\<open>positive\<close> and the
  text \<^verbatim>\<open>You save ...\<close> exactly when the difference is above zero, the class is
  \<^verbatim>\<open>negative\<close> and the text the formatted difference exactly when it is below zero, and
  the class is \<^verbatim>\<open>neutral\<close> and the text \<^verbatim>\<open>Fair value\<close> exactly when it is zero. The
  cards of \<open>renderProperties\<close> and the savings pill of \<open>renderPropertyDetails\<close> both
  carry this class and this text.
\<close>

theorem savings_callout_by_sign:
  "(savingsClass s = js ''positive'' \<longleftrightarrow> s > 0)
   \<and> (savingsClass s = js ''negative'' \<longleftrightarrow> s < 0)
   \<and> (savingsClass s = js ''neutral'' \<longleftrightarrow> s = 0)
   \<and> (savingsText s = js ''You save '' @ formatMoney s \<longleftrightarrow> s > 0)
   \<and> (savingsText s = formatMoney s \<longleftrightarrow> s < 0)
   \<and> (savingsText s = js ''Fair value'' \<longleftrightarrow> s = 0)
   \<and> cardSavingsClass (propertyCard p) = savingsClass (estValue p - listPrice p)
   \<and> cardSavingsText (propertyCard p) = savingsText (estValue p - listPrice p)
   \<and> map_option content (getElementById (renderProperties d) (js ''properties-grid''))
       = map_option (\<lambda>e. PropertyCards (map propertyCard PROPERTIES))
           (getElementById d (js ''properties-grid''))
   \<and> map_option (\<lambda>e. (className e, content e))
         (getElementById (renderPropertyDetails p d) (js ''property-savings''))
       = map_option (\<lambda>e. ([js ''savings-pill'', savingsClass (estValue p - listPrice p)],
                            TextContent (savingsText (estValue p - listPrice p))))
           (getElementById d (js ''property-savings''))"
  using savingsClass_sign [of s] savingsText_sign [of s]
    renderProperties_cards [of d] renderPropertyDetails_savings [of p d]
  by (simp add: propertyCard_def Let_def)

section \<open>Reconciliation of price signals\<close>

text \<open>
  Claim C1. Every aggregation returns a result, never a failure, and the result holds
  the market signal. When the estimator answers with a signal of confidence \<^verbatim>\<open>high\<close>
  or \<^verbatim>\<open>medium\<close>, the reconciled value is that estimate and the reconciled confidence
  is the signal's. In every other case (the estimator failed, timed out, answered
  something malformed, or answered a signal of low or no confidence) the reconciled
  value is the market amount and the reconciled confidence is \<^verbatim>\<open>medium\<close>.
\<close>

theorem aggregate_reconciles:
  "\<exists>r. aggregate facts market third estimatorCall = Inr r
     \<and> market \<in> set (signals r)
     \<and> (\<forall>g c. estimatorCall facts = Estimate g \<and> confidence g = Some c
               \<and> (c = High \<or> c = Medium)
            \<longrightarrow> reconciledValue r = amount g \<and> reconciledConfidence r = c)
     \<and> ((\<forall>g. estimatorCall facts = Estimate g
               \<longrightarrow> confidence g \<noteq> Some High \<and> confidence g \<noteq> Some Medium)
            \<longrightarrow> reconciledValue r = amount market \<and> reconciledConfidence r = Medium)
     \<and> deltaFromMarket r = reconciledValue r - amount market
     \<and> (isUndervalued r \<longleftrightarrow> deltaFromMarket r > 0)"
  by (cases "estimatorCall facts")
     (auto simp: aggregate_def Let_def generativeSignal_def usable_def)

theorem aggregate_reconciles_witness:
  "(\<exists>r. aggregate scenarioFacts scenarioMarket None (\<lambda>f. Estimate scenarioEstimate) = Inr r
      \<and> reconciledValue r = 478000 \<and> reconciledConfidence r = High
      \<and> deltaFromMarket r = 28000 \<and> isUndervalued r)
   \<and> (\<exists>r. aggregate scenarioFacts scenarioMarket None (\<lambda>f. EstimatorTimedOut) = Inr r
      \<and> reconciledValue r = 450000 \<and> reconciledConfidence r = Medium
      \<and> \<not> isUndervalued r)"
proof
  obtain r where r: "aggregate scenarioFacts scenarioMarket None (\<lambda>f. Estimate scenarioEstimate) = Inr r"
    and u: "\<forall>g c. Estimate scenarioEstimate = Estimate g \<and> confidence g = Some c
               \<and> (c = High \<or> c = Medium)
            \<longrightarrow> reconciledValue r = amount g \<and> reconciledConfidence r = c"
    and d: "deltaFromMarket r = reconciledValue r - amount scenarioMarket"
    and i: "isUndervalued r \<longleftrightarrow> deltaFromMarket r > 0"
    using aggregate_reconciles [of scenarioFacts scenarioMarket None "\<lambda>f. Estimate scenarioEstimate"]
    by blast
  have "confidence scenarioEstimate = Some High"
    by (simp add: scenarioEstimate_def)
  with u have v: "reconciledValue r = amount scenarioEstimate \<and> reconciledConfidence r = High"
    by blast
  then have "reconciledValue r = 478000 \<and> reconciledConfidence r = High
      \<and> deltaFromMarket r = 28000 \<and> isUndervalued r"
    using d i by (simp add: scenarioEstimate_def scenarioMarket_def)
  with r show "\<exists>r. aggregate scenarioFacts scenarioMarket None (\<lambda>f. Estimate scenarioEstimate) = Inr r
      \<and> reconciledValue r = 478000 \<and> reconciledConfidence r = High
      \<and> deltaFromMarket r = 28000 \<and> isUndervalued r"
    by blast
next
  obtain r where r: "aggregate scenarioFacts scenarioMarket None (\<lambda>f. EstimatorTimedOut) = Inr r"
    and u: "(\<forall>g. EstimatorTimedOut = Estimate g
               \<longrightarrow> confidence g \<noteq> Some High \<and> confidence g \<noteq> Some Medium)
            \<longrightarrow> reconciledValue r = amount scenarioMarket \<and> reconciledConfidence r = Medium"
    and d: "deltaFromMarket r = reconciledValue r - amount scenarioMarket"
    and i: "isUndervalued r \<longleftrightarrow> deltaFromMarket r > 0"
    using aggregate_reconciles [of scenarioFacts scenarioMarket None "\<lambda>f. EstimatorTimedOut"]
    by blast
  from u have v: "reconciledValue r = amount scenarioMarket \<and> reconciledConfidence r = Medium"
    by simp
  then have "reconciledValue r = 450000 \<and> reconciledConfidence r = Medium \<and> \<not> isUndervalued r"
    using d i by (simp add: scenarioMarket_def)
  with r show "\<exists>r. aggregate scenarioFacts scenarioMarket None (\<lambda>f. EstimatorTimedOut) = Inr r
      \<and> reconciledValue r = 450000 \<and> reconciledConfidence r = Medium
      \<and> \<not> isUndervalued r"
    by blast
qed

section \<open>One message request at a time\<close>

lemma addMessage_fields [simp]:
  "pending (addMessage role body c) = pending c"
  "sent (addMessage role body c) = sent c"
  "isTyping (addMessage role body c) = isTyping c"
  by (simp_all add: addMessage_def)

lemma openChat_fields [simp]:
  "pending (openChat c) = pending c"
  "sent (openChat c) = sent c"
  "isTyping (openChat c) = isTyping c"
  by (simp_all add: openChat_def startSession_def Let_def)

lemma updateExistingChatbot_fields:
  "pending (updateExistingChatbot cs fd c) = pending c"
  "sent (updateExistingChatbot cs fd c) = sent c"
  "isTyping (updateExistingChatbot cs fd c) = isTyping c"
  by (simp_all add: updateExistingChatbot_def Let_def)

lemma sendMessage_idle:
  "\<not> isTyping c \<Longrightarrow> trim (inputValue c) \<noteq> [] \<Longrightarrow>
     pending (sendMessage c) = pending c @ [\<lparr>req_session_id = sessionId c, req_message = trim (inputValue c)\<rparr>]
     \<and> sent (sendMessage c) = sent c @ [\<lparr>req_session_id = sessionId c, req_message = trim (inputValue c)\<rparr>]
     \<and> isTyping (sendMessage c)"
  by (simp add: sendMessage_def Let_def showTyping_def addMessage_def)

lemma sendMessage_blocked:
  "isTyping c \<or> trim (inputValue c) = [] \<Longrightarrow> sendMessage c = c"
  by (auto simp: sendMessage_def Let_def)

text \<open>The invariant: nothing is pending and nothing is awaited, or one request is.\<close>

lemma chatStep_invariant:
  assumes "(pending c = [] \<and> \<not> isTyping c) \<or> (length (pending c) = 1 \<and> isTyping c)"
  shows "(pending (chatStep ev c) = [] \<and> \<not> isTyping (chatStep ev c))
         \<or> (length (pending (chatStep ev c)) = 1 \<and> isTyping (chatStep ev c))"
proof (cases ev)
  case SendClicked
  show ?thesis
  proof (cases "isTyping c \<or> trim (inputValue c) = []")
    case True
    then show ?thesis using assms SendClicked by (simp add: chatStep_def sendMessage_blocked)
  next
    case False
    then have "\<not> isTyping c" and "trim (inputValue c) \<noteq> []" by auto
    from sendMessage_idle [OF this] assms \<open>\<not> isTyping c\<close> show ?thesis
      using SendClicked by (simp add: chatStep_def)
  qed
next
  case (MessageSettles i resp)
  show ?thesis
  proof (cases "i < length (pending c)")
    case False
    then show ?thesis using assms MessageSettles by (simp add: chatStep_def)
  next
    case True
    with assms have "length (pending c) = 1" and "i = 0" by auto
    then have "take i (pending c) @ drop (Suc i) (pending c) = []" by simp
    then show ?thesis
      using True MessageSettles
      by (cases resp) (simp_all add: chatStep_def messageSettled_def hideTyping_def Let_def)
  qed
qed (use assms in \<open>simp_all add: chatStep_def toggleChat_def closeChat_def sessionSettled_def
      updateExistingChatbot_fields split: option.splits\<close>)

lemma chatRun_invariant:
  assumes "(pending c = [] \<and> \<not> isTyping c) \<or> (length (pending c) = 1 \<and> isTyping c)"
  shows "(pending (chatRun evs c) = [] \<and> \<not> isTyping (chatRun evs c))
         \<or> (length (pending (chatRun evs c)) = 1 \<and> isTyping (chatRun evs c))"
  using assms
proof (induction evs arbitrary: c)
  case Nil
  then show ?case by (simp add: chatRun_def)
next
  case (Cons ev evs)
  have "chatRun (ev # evs) c = chatRun evs (chatStep ev c)"
    by (simp add: chatRun_def)
  then show ?case
    using Cons.IH [OF chatStep_invariant [OF Cons.prems]] by simp
qed

lemma chatStep_sent:
  assumes "sent (chatStep ev c) \<noteq> sent c"
  shows "\<not> isTyping c \<and> ev = SendClicked
         \<and> sent (chatStep ev c) = sent c @ [\<lparr>req_session_id = sessionId c, req_message = trim (inputValue c)\<rparr>]
         \<and> pending (chatStep ev c) = pending c @ [\<lparr>req_session_id = sessionId c, req_message = trim (inputValue c)\<rparr>]"
proof (cases ev)
  case SendClicked
  with assms have n: "\<not> (isTyping c \<or> trim (inputValue c) = [])"
    using sendMessage_blocked [of c] by (auto simp: chatStep_def)
  then have "\<not> isTyping c" and "trim (inputValue c) \<noteq> []" by auto
  from sendMessage_idle [OF this] \<open>\<not> isTyping c\<close> SendClicked show ?thesis
    by (simp add: chatStep_def)
next
  case (MessageSettles i resp)
  with assms show ?thesis
    by (cases resp)
       (auto simp: chatStep_def messageSettled_def hideTyping_def Let_def split: if_splits)
qed (use assms in \<open>auto simp: chatStep_def toggleChat_def closeChat_def sessionSettled_def
      updateExistingChatbot_fields split: option.splits if_splits\<close>)

text \<open>
  Claim C6. Whatever events reach one chat widget, in whatever order, at most one
  \<^verbatim>\<open>/chat/message\<close> request is unsettled at any time, and one is unsettled exactly
  while \<open>isTyping\<close> holds. While a request is unsettled, \<open>sendMessage\<close> changes
  nothing: it sends no second request. A request is only ever sent when none is
  unsettled, so the requests of a widget reach the server one after the other, in the
  order in which they were sent.
\<close>

theorem one_message_in_flight:
  "length (pending (chatRun evs newChatbot)) \<le> 1
   \<and> (isTyping (chatRun evs newChatbot) \<longleftrightarrow> pending (chatRun evs newChatbot) \<noteq> [])
   \<and> (pending (chatRun evs newChatbot) \<noteq> [] \<longrightarrow>
        sendMessage (chatRun evs newChatbot) = chatRun evs newChatbot)
   \<and> (sent (chatStep ev (chatRun evs newChatbot)) \<noteq> sent (chatRun evs newChatbot) \<longrightarrow>
        pending (chatRun evs newChatbot) = []
        \<and> (\<exists>request. sent (chatStep ev (chatRun evs newChatbot))
                        = sent (chatRun evs newChatbot) @ [request]
                      \<and> pending (chatStep ev (chatRun evs newChatbot)) = [request]))"
proof -
  have "(pending newChatbot = [] \<and> \<not> isTyping newChatbot)
        \<or> (length (pending newChatbot) = 1 \<and> isTyping newChatbot)"
    by (simp add: newChatbot_def)
  from chatRun_invariant [OF this, of evs]
  have inv: "(pending (chatRun evs newChatbot) = [] \<and> \<not> isTyping (chatRun evs newChatbot))
        \<or> (length (pending (chatRun evs newChatbot)) = 1 \<and> isTyping (chatRun evs newChatbot))" .
  then have a: "length (pending (chatRun evs newChatbot)) \<le> 1"
    and b: "isTyping (chatRun evs newChatbot) \<longleftrightarrow> pending (chatRun evs newChatbot) \<noteq> []"
    by auto
  from b have c: "pending (chatRun evs newChatbot) \<noteq> [] \<longrightarrow>
        sendMessage (chatRun evs newChatbot) = chatRun evs newChatbot"
    by (simp add: sendMessage_blocked)
  have d: "sent (chatStep ev (chatRun evs newChatbot)) \<noteq> sent (chatRun evs newChatbot) \<longrightarrow>
        pending (chatRun evs newChatbot) = []
        \<and> (\<exists>request. sent (chatStep ev (chatRun evs newChatbot))
                        = sent (chatRun evs newChatbot) @ [request]
                      \<and> pending (chatStep ev (chatRun evs newChatbot)) = [request])"
  proof
    assume "sent (chatStep ev (chatRun evs newChatbot)) \<noteq> sent (chatRun evs newChatbot)"
    from chatStep_sent [OF this] b show "pending (chatRun evs newChatbot) = []
        \<and> (\<exists>request. sent (chatStep ev (chatRun evs newChatbot))
                        = sent (chatRun evs newChatbot) @ [request]
                      \<and> pending (chatStep ev (chatRun evs newChatbot)) = [request])"
      by auto
  qed
  from a b c d show ?thesis by blast
qed

lemmas chat_defs = chatRun_def chatStep_def sendMessage_def showTyping_def addMessage_def
  newChatbot_def Let_def trim_def isWhiteSpace_def js_def

theorem one_message_in_flight_witness:
  "pending (chatRun impatientUser newChatbot) \<noteq> []
   \<and> sendMessage (chatRun impatientUser newChatbot) = chatRun impatientUser newChatbot
   \<and> sent (chatRun impatientUser newChatbot)
       = [\<lparr>req_session_id = None, req_message = js ''hello''\<rparr>]
   \<and> sent (chatStep SendClicked (chatRun [Edit (js ''hello'')] newChatbot))
       \<noteq> sent (chatRun [Edit (js ''hello'')] newChatbot)
   \<and> pending (chatRun [Edit (js ''hello'')] newChatbot) = []"
proof -
  have h1: "pending (chatRun impatientUser newChatbot) \<noteq> []"
    by (simp add: impatientUser_def chat_defs)
  have h2: "sent (chatRun impatientUser newChatbot)
       = [\<lparr>req_session_id = None, req_message = js ''hello''\<rparr>]"
    by (simp add: impatientUser_def chat_defs)
  have h3: "sent (chatStep SendClicked (chatRun [Edit (js ''hello'')] newChatbot))
       \<noteq> sent (chatRun [Edit (js ''hello'')] newChatbot)"
    by (simp add: chat_defs)
  from one_message_in_flight [of impatientUser] h1
  have c1: "sendMessage (chatRun impatientUser newChatbot) = chatRun impatientUser newChatbot"
    by blast
  from one_message_in_flight [of "[Edit (js ''hello'')]" SendClicked] h3
  have c2: "pending (chatRun [Edit (js ''hello'')] newChatbot) = []"
    by blast
  from h1 h2 h3 c1 c2 show ?thesis by blast
qed

section \<open>Rendering a reply\<close>

lemma replaceDelimited_Nil: "replaceDelimited delim a b [] = []"
  by (simp add: replaceDelimited.simps)

lemma replaceDelimited_Cons:
  "replaceDelimited delim a b (c # cs) =
     (if delim \<noteq> [] \<and> take (length delim) (c # cs) = delim
      then (case lazyUpTo delim (drop (length delim) (c # cs)) of
              Some (cap, rest) \<Rightarrow> a @ cap @ b @ replaceDelimited delim a b rest
            | None \<Rightarrow> c # replaceDelimited delim a b cs)
      else c # replaceDelimited delim a b cs)"
  by (subst replaceDelimited.simps) simp

lemma propertyMatches_Nil: "propertyMatches [] = []"
  by (subst propertyMatches.simps) (simp add: propertyPattern_def lit_def house_def)

lemma propertyMatches_Cons:
  "propertyMatches (c # cs) =
     (case propertyPattern (c # cs) of
        Some (m, rest) \<Rightarrow> m # propertyMatches rest
      | None \<Rightarrow> propertyMatches cs)"
  by (subst propertyMatches.simps) (simp split: option.splits)

lemmas emoji_defs = house_def pin_def calendar_def robot_def garden_def replacement_def

lemmas format_defs = formatted_def replaceNewlines_def replaceDelimited_Nil
  replaceDelimited_Cons isLineTerminator_def js_def emoji_defs

lemmas pattern_defs = propertyMatches_Nil propertyMatches_Cons propertyPattern_def lit_def
  many1_def oneOf_def labelled_def optional_def isDigit_def notLt_def priceIcon_def js_def
  emoji_defs

lemma listingReply_formatted:
  "formatted listingReply =
     js ''I found 1 property:<br>'' @ house @ js '' <strong>Property 1</strong><br>''
     @ pin @ js '' 12 Elm St, Miami, FL<br>'' @ calendar @ js '' Built: 1990''"
  by (simp add: listingReply_def format_defs)

lemma listingReply_matches: "propertyMatches (formatted listingReply) = []"
  unfolding listingReply_formatted by (simp add: pattern_defs)

lemma listingText_matches:
  "propertyMatches listingText =
     [\<lparr>number = js ''1'', address = js ''12 Elm St, Miami, FL'', aiPrice = None,
       listedPrice = None, details = None, yearBuilt' = Some (js ''1990''),
       aiConfidence = None\<rparr>]"
  by (simp add: listingText_def pattern_defs)

text \<open>
  The scan of a formatted text finds no match. Formatting turns every asterisk that has
  a partner into a tag, so it leaves no two asterisks side by side, and
  \<open>propertyPattern\<close> needs two. So \<open>formatMessage\<close> returns the formatted text for
  every message.
\<close>

lemma starPair_Cons: "starPair cs \<Longrightarrow> starPair (c # cs)"
  by (cases cs) auto

lemma starPair_other: "c \<noteq> 0x2A \<Longrightarrow> starPair (c # cs) = starPair cs"
  by (cases cs) auto

lemma starPair_prefix: "0x2A \<notin> set xs \<Longrightarrow> starPair (xs @ ys) = starPair ys"
  by (induction xs) (auto simp: starPair_other)

lemma lazyUpTo_star_capture:
  "lazyUpTo [0x2A] s = Some (cap, rest) \<Longrightarrow> 0x2A \<notin> set cap"
  by (induction s arbitrary: cap) (auto split: if_splits)

lemma lazyUpTo_star_None: "lazyUpTo [0x2A] (c # cs) = None \<Longrightarrow> c \<noteq> 0x2A"
  by (auto split: if_splits)

lemma em_no_starPair:
  assumes "0x2A \<notin> set a" and "0x2A \<notin> set b"
  shows "\<not> starPair (replaceDelimited [0x2A] a b s)"
proof (induction s rule: length_induct)
  case (1 s)
  show ?case
  proof (cases s)
    case Nil
    then show ?thesis by (simp add: replaceDelimited_Nil)
  next
    case (Cons c cs)
    have ih: "\<And>t. length t < length s \<Longrightarrow> \<not> starPair (replaceDelimited [0x2A] a b t)"
      using 1 by blast
    show ?thesis
    proof (cases "c = 0x2A")
      case False
      then show ?thesis
        using ih [of cs] Cons by (simp add: replaceDelimited_Cons starPair_other)
    next
      case True
      show ?thesis
      proof (cases "lazyUpTo [0x2A] cs")
        case (Some p)
        obtain cap rest where p: "p = (cap, rest)" by (cases p)
        have "length rest \<le> length cs"
          using Some p lazyUpTo_length by blast
        then have "\<not> starPair (replaceDelimited [0x2A] a b rest)"
          using ih [of rest] Cons by simp
        moreover have "0x2A \<notin> set (a @ cap @ b)"
          using assms lazyUpTo_star_capture Some p by auto
        ultimately have "\<not> starPair ((a @ cap @ b) @ replaceDelimited [0x2A] a b rest)"
          using starPair_prefix [of "a @ cap @ b" "replaceDelimited [0x2A] a b rest"] by blast
        then show ?thesis
          using True Cons Some p by (simp add: replaceDelimited_Cons)
      next
        case None
        have out: "replaceDelimited [0x2A] a b s = 0x2A # replaceDelimited [0x2A] a b cs"
          using True Cons None by (simp add: replaceDelimited_Cons)
        show ?thesis
        proof (cases cs)
          case Nil
          then show ?thesis using out by (simp add: replaceDelimited_Nil)
        next
          case (Cons d ds)
          then have d: "d \<noteq> 0x2A"
            using None lazyUpTo_star_None by blast
          then have "replaceDelimited [0x2A] a b cs = d # replaceDelimited [0x2A] a b ds"
            using Cons by (simp add: replaceDelimited_Cons)
          moreover have "\<not> starPair (replaceDelimited [0x2A] a b cs)"
            using ih [of cs] \<open>s = c # cs\<close> by simp
          ultimately show ?thesis
            using out d by simp
        qed
      qed
    qed
  qed
qed

lemma formatted_no_starPair: "\<not> starPair (formatted body)"
proof -
  have star: "js ''*'' = [0x2A]"
    by (simp add: js_def)
  show ?thesis
    unfolding formatted_def star by (rule em_no_starPair) (simp_all add: js_def)
qed

lemma propertyPattern_needs_starPair:
  assumes "\<not> starPair t"
  shows "propertyPattern t = None"
proof (cases "lit (house @ js '' **Property '') t")
  case None
  then show ?thesis by (simp add: propertyPattern_def)
next
  case (Some r)
  then have eq: "take (length (house @ js '' **Property '')) t = house @ js '' **Property ''"
    by (simp add: lit_def split: if_splits)
  have len: "length (house @ js '' **Property '') = 14"
    by (simp add: house_def js_def)
  have "take 5 (take 14 t) = take 5 (house @ js '' **Property '')"
    using eq by (simp only: len)
  also have "\<dots> = [0xD83C, 0xDFE0, 0x20, 0x2A, 0x2A]"
    by (simp add: house_def js_def)
  finally have "take 5 (take 14 t) = [0xD83C, 0xDFE0, 0x20, 0x2A, 0x2A]" .
  then have "take 5 t = [0xD83C, 0xDFE0, 0x20, 0x2A, 0x2A]"
    by simp
  then have "t = [0xD83C, 0xDFE0, 0x20, 0x2A, 0x2A] @ drop 5 t"
    by (metis append_take_drop_id)
  then have "starPair t"
    by (metis append_Cons starPair.simps(1) starPair_Cons)
  with assms show ?thesis by simp
qed

lemma propertyMatches_needs_starPair: "\<not> starPair t \<Longrightarrow> propertyMatches t = []"
proof (induction t)
  case Nil
  then show ?case by (simp add: propertyMatches_Nil)
next
  case (Cons c cs)
  then have "\<not> starPair cs" using starPair_Cons by blast
  with Cons show ?case
    by (simp add: propertyMatches_Cons propertyPattern_needs_starPair)
qed

lemma formatMessage_formatted: "formatMessage body = Html (formatted body)"
  by (simp add: formatMessage_def Let_def propertyMatches_needs_starPair formatted_no_starPair)

text \<open>
  Claim C7, as the code has it. Structured valuation results are not handed to the
  rendering. Of a conversational reply the widget reads the message text and the two
  flags \<^verbatim>\<open>completed\<close> and \<^verbatim>\<open>preferences_collected\<close>, and nothing else: whatever data
  is attached to the reply, the widget ends in the same state. What it shows for the
  reply is what \<open>formatMessage\<close> computes from the message text, as for every message
  that \<open>addMessage\<close> appends.
\<close>

theorem reply_rendered_from_text:
  "messageSettled (Reply (data\<lparr>otherMembers := attached\<rparr>)) c
     = messageSettled (Reply data) c
   \<and> chatMessages (messageSettled (Reply data) c)
       = chatMessages c @ [(js ''assistant'', formatMessage (reply_message data))]
   \<and> chatMessages (addMessage role body c) = chatMessages c @ [(role, formatMessage body)]"
  by (simp add: messageSettled_def addMessage_def hideTyping_def Let_def)

text \<open>
  The claim as the specification states it fails. Valuation results that the answer of
  the server carries as data do not reach the rendering: the answer with them and the
  answer without them, with the same message, leave the widget in the same state.
\<close>

theorem attached_results_counterexample:
  "otherMembers replyWithResults = [(js ''fair_value_estimates'', js ''[478000]'')]
   \<and> otherMembers replyTextOnly = []
   \<and> reply_message replyWithResults = reply_message replyTextOnly
   \<and> messageSettled (Reply replyWithResults) newChatbot
       = messageSettled (Reply replyTextOnly) newChatbot"
  by (simp add: messageSettled_def replyWithResults_def replyTextOnly_def)

end
